theory Spec2Isabelle
  imports Main "HOL-Library.AList"
begin

section \<open>The adapter registry of usdImaging (adapterRegistry.cpp)\<close>

text \<open>
  A shallow embedding of \<^verbatim>\<open>UsdImagingAdapterRegistry\<close>: its constructor, which
  builds the two name-to-adapter-type tables and the list of keyless API schema
  adapters, and its lookup and construction members. The plugin registry, the schema
  registry and the type system are collaborators of the file; they are the fields of
  the record \<open>Env\<close>, and every function of the model takes them as a parameter.
  \<^verbatim>\<open>TF_RUNTIME_ERROR\<close> and \<^verbatim>\<open>TF_CODING_ERROR\<close> post a diagnostic and
  return; the model collects them in a list, in the order they are posted.
  \<^verbatim>\<open>TF_DEBUG\<close> output is printed only under a debug flag and is left out.
\<close>

subsection \<open>Data\<close>

type_synonym TfToken = string

text \<open>A \<^verbatim>\<open>TfType\<close> handle; a default-constructed one is the unknown type, which
  converts to false.\<close>

datatype TfType = UnknownTfType | TfType string

text \<open>The values of a \<^verbatim>\<open>JsObject\<close>, as far as \<^verbatim>\<open>Is<bool>\<close> and
  \<^verbatim>\<open>Is<std::string>\<close>, the discriminators \<open>IsBool\<close> and \<open>IsString\<close>, tell them
  apart.\<close>

datatype JsValue = IsBool: JsBool bool | IsString: JsString string | JsInt int | JsNull

type_synonym JsObject = "string \<Rightarrow> JsValue option"

record PlugPlugin =
  GetMetadataForType :: "TfType \<Rightarrow> JsObject"
  Load :: bool

record SchemaInfo =
  schemaIdentifier :: TfToken
  schemaType :: TfType

datatype 'a Factory = Factory (New: "'a option")

datatype UsdImagingPrimAdapter = UsdImagingInstanceAdapter | PluginPrimAdapter nat

datatype UsdImagingAPISchemaAdapter = PluginAPISchemaAdapter nat

datatype Message =
    isInternalCorrupted TfType
  | primTypeNameNotPresent TfType
  | primTypeNameCorrupted TfType
  | primAdapterAlreadyExists TfToken TfType TfType
  | includeDerivedPrimTypesCorrupted TfType
  | includeSchemaFamilyCorrupted TfType
  | apiSchemaNameNotPresent TfType
  | apiSchemaNameCorrupted TfType
  | pluginCouldNotBeLoaded TfType
  | cannotManufacture TfType TfToken
  | failedToInstantiate TfType TfToken

datatype Diagnostic = TF_RUNTIME_ERROR Message | TF_CODING_ERROR Message

text \<open>
  The collaborators. \<open>primAdapterTypes\<close> and \<open>apiSchemaAdapterTypes\<close> are what
  \<^verbatim>\<open>PlugRegistry::GetAllDerivedTypes\<close> puts into \<^verbatim>\<open>types\<close> for the two base
  types, in the order the loop visits them. \<open>instanceAdapterKey\<close> is the token
  \<^verbatim>\<open>UsdImagingAdapterKeyTokens->instanceAdapterKey\<close>, declared in the header.
\<close>

record Env =
  GetPluginForType :: "TfType \<Rightarrow> PlugPlugin option"
  AreExternalPluginsEnabled :: bool
  primAdapterTypes :: "TfType list"
  apiSchemaAdapterTypes :: "TfType list"
  FindSchemaInfosInFamily :: "TfToken \<Rightarrow> SchemaInfo list"
  GetSchemaTypeName :: "TfType \<Rightarrow> TfToken"
  GetTypeFromSchemaTypeName :: "TfToken \<Rightarrow> TfType"
  GetDirectlyDerivedTypes :: "TfType \<Rightarrow> TfType list"
  GetPrimAdapterFactory :: "TfType \<Rightarrow> UsdImagingPrimAdapter Factory option"
  GetAPISchemaAdapterFactory :: "TfType \<Rightarrow> UsdImagingAPISchemaAdapter Factory option"
  instanceAdapterKey :: TfToken

subsection \<open>The type map\<close>

text \<open>
  \<^verbatim>\<open>_TypeMap\<close> is a hash map from token to type. The model is an association list
  with one pair per key; a new key goes to the end, so the list is in insertion order.
  The order in which the hash map is iterated is not fixed by the source; the model
  iterates in insertion order.
\<close>

type_synonym TypeMap = "(TfToken \<times> TfType) list"

definition tm_count :: "TypeMap \<Rightarrow> TfToken \<Rightarrow> nat" where
  "tm_count tm k = (case map_of tm k of None \<Rightarrow> 0 | Some _ \<Rightarrow> 1)"

text \<open>\<^verbatim>\<open>tm[k]\<close> read: a missing key is inserted with a default-constructed value.\<close>

definition tm_index :: "TypeMap \<Rightarrow> TfToken \<Rightarrow> TfType \<times> TypeMap" where
  "tm_index tm k =
     (case map_of tm k of
        Some v \<Rightarrow> (v, tm)
      | None \<Rightarrow> (UnknownTfType, tm @ [(k, UnknownTfType)]))"

text \<open>\<^verbatim>\<open>tm[k] = v\<close>.\<close>

definition tm_assign :: "TfToken \<Rightarrow> TfType \<Rightarrow> TypeMap \<Rightarrow> TypeMap" where
  "tm_assign k v tm = AList.update k v tm"

text \<open>\<^verbatim>\<open>tm.emplace(k, v)\<close>: the map and whether the pair was inserted.\<close>

definition tm_emplace :: "TfToken \<Rightarrow> TfType \<Rightarrow> TypeMap \<Rightarrow> TypeMap \<times> bool" where
  "tm_emplace k v tm =
     (case map_of tm k of
        Some _ \<Rightarrow> (tm, False)
      | None \<Rightarrow> (tm @ [(k, v)], True))"

definition tm_keys :: "TypeMap \<Rightarrow> TfToken list" where
  "tm_keys tm = map fst tm"

subsection \<open>The registry and the state of its constructor\<close>

record Registry =
  typeMap :: TypeMap
  adapterKeys :: "TfToken list"
  apiSchemaTypeMap :: TypeMap
  apiSchemaAdapterKeys :: "TfToken list"
  keylessApiSchemaAdapterTypes :: "TfType list"

text \<open>The constructor's view: the members, its two local vectors and the diagnostics
  posted so far.\<close>

record Ctor = Registry +
  includeDerivedPrimTypes :: "TfToken list"
  includeSchemaFamilies :: "(TfToken \<times> bool) list"
  diagnostics :: "Diagnostic list"

definition post :: "Diagnostic \<Rightarrow> Ctor \<Rightarrow> Ctor" where
  "post d c = c\<lparr>diagnostics := diagnostics c @ [d]\<rparr>"

text \<open>Lines 79-94 and 273-288: \<open>None\<close> is the corrupted \<^verbatim>\<open>isInternal\<close>.\<close>

definition isEnabled :: "Env \<Rightarrow> JsObject \<Rightarrow> bool option" where
  "isEnabled env metadata =
     (if AreExternalPluginsEnabled env then Some True
      else (case metadata ''isInternal'' of
              None \<Rightarrow> Some False
            | Some (JsBool b) \<Rightarrow> Some b
            | Some _ \<Rightarrow> None))"

subsection \<open>Pass 1 for prim adapters (lines 64-168)\<close>

text \<open>Lines 154-167, with \<open>includeDerived\<close> as lines 138-150 left it.\<close>

definition primFamilyOptIn :: "JsObject \<Rightarrow> TfType \<Rightarrow> TfToken \<Rightarrow> bool \<Rightarrow> Ctor \<Rightarrow> Ctor" where
  "primFamilyOptIn metadata typeIt primTypeName includeDerived c =
     (case metadata ''includeSchemaFamily'' of
        None \<Rightarrow> c
      | Some (JsBool b) \<Rightarrow>
          (if b then c\<lparr>includeSchemaFamilies :=
                         includeSchemaFamilies c @ [(primTypeName, includeDerived)]\<rparr>
           else c)
      | Some _ \<Rightarrow> post (TF_RUNTIME_ERROR (includeSchemaFamilyCorrupted typeIt)) c)"

text \<open>Lines 136-167.\<close>

definition primDerivedOptIn :: "JsObject \<Rightarrow> TfType \<Rightarrow> TfToken \<Rightarrow> Ctor \<Rightarrow> Ctor" where
  "primDerivedOptIn metadata typeIt primTypeName c =
     (case metadata ''includeDerivedPrimTypes'' of
        None \<Rightarrow> primFamilyOptIn metadata typeIt primTypeName False c
      | Some (JsBool b) \<Rightarrow>
          (if b then
             primFamilyOptIn metadata typeIt primTypeName True
               (c\<lparr>includeDerivedPrimTypes := includeDerivedPrimTypes c @ [primTypeName]\<rparr>)
           else primFamilyOptIn metadata typeIt primTypeName False c)
      | Some _ \<Rightarrow> post (TF_RUNTIME_ERROR (includeDerivedPrimTypesCorrupted typeIt)) c)"

text \<open>Lines 123-131: the conflict report and the write.\<close>

definition primWrite :: "TfType \<Rightarrow> TfToken \<Rightarrow> Ctor \<Rightarrow> Ctor" where
  "primWrite typeIt primTypeName c =
     (let c1 = (if tm_count (typeMap c) primTypeName \<noteq> 0 then
                  (case tm_index (typeMap c) primTypeName of
                     (previous, tm) \<Rightarrow>
                       post (TF_CODING_ERROR
                               (primAdapterAlreadyExists primTypeName typeIt previous))
                         (c\<lparr>typeMap := tm\<rparr>))
                else c)
      in c1\<lparr>typeMap := tm_assign primTypeName typeIt (typeMap c1)\<rparr>)"

text \<open>One round of the loop over the prim adapter types; every \<^verbatim>\<open>continue\<close> is a
  branch that returns the state.\<close>

definition discoverPrimAdapter :: "Env \<Rightarrow> TfType \<Rightarrow> Ctor \<Rightarrow> Ctor" where
  "discoverPrimAdapter env typeIt c =
     (case GetPluginForType env typeIt of
        None \<Rightarrow> c
      | Some plugin \<Rightarrow>
          (let metadata = GetMetadataForType plugin typeIt in
           case isEnabled env metadata of
             None \<Rightarrow> post (TF_RUNTIME_ERROR (isInternalCorrupted typeIt)) c
           | Some False \<Rightarrow> c
           | Some True \<Rightarrow>
               (case metadata ''primTypeName'' of
                  None \<Rightarrow> post (TF_RUNTIME_ERROR (primTypeNameNotPresent typeIt)) c
                | Some (JsString primTypeName) \<Rightarrow>
                    primDerivedOptIn metadata typeIt primTypeName
                      (primWrite typeIt primTypeName c)
                | Some _ \<Rightarrow> post (TF_RUNTIME_ERROR (primTypeNameCorrupted typeIt)) c)))"

subsection \<open>Pass 2: schema families (lines 170-195)\<close>

text \<open>The inner loop body, lines 180-193.\<close>

definition mapFamilySchema :: "Env \<Rightarrow> TfType \<Rightarrow> bool \<Rightarrow> SchemaInfo \<Rightarrow> Ctor \<Rightarrow> Ctor" where
  "mapFamilySchema env adapterType includeDerived schemaInfo c =
     (case tm_emplace (schemaIdentifier schemaInfo) adapterType (typeMap c) of
        (tm, inserted) \<Rightarrow>
          (if inserted then
             (let typeName = GetSchemaTypeName env (schemaType schemaInfo) in
              if includeDerived then
                c\<lparr>typeMap := tm,
                  includeDerivedPrimTypes := includeDerivedPrimTypes c @ [typeName]\<rparr>
              else c\<lparr>typeMap := tm\<rparr>)
           else c\<lparr>typeMap := tm\<rparr>))"

text \<open>The outer loop body, lines 171-194.\<close>

definition mapFamily :: "Env \<Rightarrow> TfToken \<times> bool \<Rightarrow> Ctor \<Rightarrow> Ctor" where
  "mapFamily env pair c =
     (let familyName = fst pair; includeDerived = snd pair in
      case tm_index (typeMap c) familyName of
        (adapterType, tm) \<Rightarrow>
          fold (mapFamilySchema env adapterType includeDerived)
            (FindSchemaInfosInFamily env familyName) (c\<lparr>typeMap := tm\<rparr>))"

subsection \<open>Pass 3: derived types (lines 199-243)\<close>

text \<open>
  One round of the while loop, lines 216-240. The stack is a list whose head is the
  back of the vector: \<^verbatim>\<open>pop_back\<close> takes the head, and pushing the directly derived
  types one after the other leaves the last of them on top.
\<close>

definition derivedStep ::
  "Env \<Rightarrow> TfType \<Rightarrow> TfType \<Rightarrow> TfType list \<Rightarrow> TypeMap \<Rightarrow> TfType list \<times> TypeMap" where
  "derivedStep env adapterType derivedType rest tm =
     (let typeName = GetSchemaTypeName env derivedType in
      if typeName = [] then (rest, tm)
      else (case tm_emplace typeName adapterType tm of
              (tm', inserted) \<Rightarrow>
                (if inserted then
                   (rev (GetDirectlyDerivedTypes env derivedType) @ rest, tm')
                 else (rest, tm'))))"

text \<open>The while loop. Nothing in the source bounds it: it runs until the stack is
  empty, so the model is partial, \<open>None\<close> being a loop that does not end.\<close>

partial_function (option) derivedLoop ::
  "Env \<Rightarrow> TfType \<Rightarrow> TfType list \<Rightarrow> TypeMap \<Rightarrow> TypeMap option" where
  "derivedLoop env adapterType stack tm =
     (case stack of
        [] \<Rightarrow> Some tm
      | derivedType # rest \<Rightarrow>
          (case derivedStep env adapterType derivedType rest tm of
             (stack', tm') \<Rightarrow> derivedLoop env adapterType stack' tm'))"

declare derivedLoop.simps [code]

text \<open>The body of the for loop, lines 201-241.\<close>

definition derivedRoot :: "Env \<Rightarrow> TfToken \<Rightarrow> TypeMap \<Rightarrow> TypeMap option" where
  "derivedRoot env primTypeName tm =
     (let primType = GetTypeFromSchemaTypeName env primTypeName in
      if primType = UnknownTfType then Some tm
      else (case tm_index tm primTypeName of
              (adapterType, tm1) \<Rightarrow>
                derivedLoop env adapterType
                  (rev (GetDirectlyDerivedTypes env primType)) tm1))"

fun ProcessDerivedTypes :: "Env \<Rightarrow> TfToken list \<Rightarrow> TypeMap \<Rightarrow> TypeMap option" where
  "ProcessDerivedTypes env [] tm = Some tm"
| "ProcessDerivedTypes env (primTypeName # names) tm =
     (case derivedRoot env primTypeName tm of
        None \<Rightarrow> None
      | Some tm' \<Rightarrow> ProcessDerivedTypes env names tm')"

subsection \<open>Pass 1 for API schema adapters (lines 258-341)\<close>

text \<open>Lines 328-340.\<close>

definition apiDerivedOptIn :: "JsObject \<Rightarrow> TfType \<Rightarrow> TfToken \<Rightarrow> Ctor \<Rightarrow> Ctor" where
  "apiDerivedOptIn metadata typeIt apiSchemaName c =
     (case metadata ''includeDerivedPrimTypes'' of
        None \<Rightarrow> c
      | Some (JsBool b) \<Rightarrow>
          (if b then
             c\<lparr>includeDerivedPrimTypes := includeDerivedPrimTypes c @ [apiSchemaName]\<rparr>
           else c)
      | Some _ \<Rightarrow> post (TF_RUNTIME_ERROR (includeDerivedPrimTypesCorrupted typeIt)) c)"

definition discoverAPISchemaAdapter :: "Env \<Rightarrow> TfType \<Rightarrow> Ctor \<Rightarrow> Ctor" where
  "discoverAPISchemaAdapter env typeIt c =
     (case GetPluginForType env typeIt of
        None \<Rightarrow> c
      | Some plugin \<Rightarrow>
          (let metadata = GetMetadataForType plugin typeIt in
           case isEnabled env metadata of
             None \<Rightarrow> post (TF_RUNTIME_ERROR (isInternalCorrupted typeIt)) c
           | Some False \<Rightarrow> c
           | Some True \<Rightarrow>
               (case metadata ''apiSchemaName'' of
                  None \<Rightarrow> post (TF_RUNTIME_ERROR (apiSchemaNameNotPresent typeIt)) c
                | Some (JsString apiSchemaName) \<Rightarrow>
                    (if apiSchemaName = [] then
                       c\<lparr>keylessApiSchemaAdapterTypes :=
                           keylessApiSchemaAdapterTypes c @ [typeIt]\<rparr>
                     else
                       apiDerivedOptIn metadata typeIt apiSchemaName
                         (c\<lparr>apiSchemaTypeMap :=
                              tm_assign apiSchemaName typeIt (apiSchemaTypeMap c)\<rparr>))
                | Some _ \<Rightarrow> post (TF_RUNTIME_ERROR (apiSchemaNameCorrupted typeIt)) c)))"

subsection \<open>The constructor (lines 49-351)\<close>

definition emptyCtor :: Ctor where
  "emptyCtor =
     \<lparr>typeMap = [], adapterKeys = [], apiSchemaTypeMap = [], apiSchemaAdapterKeys = [],
      keylessApiSchemaAdapterTypes = [], includeDerivedPrimTypes = [],
      includeSchemaFamilies = [], diagnostics = []\<rparr>"

text \<open>Lines 64-195: the two passes that fill the prim map and the two vectors.\<close>

definition primPasses :: "Env \<Rightarrow> Ctor" where
  "primPasses env =
     (let c1 = fold (discoverPrimAdapter env) (primAdapterTypes env) emptyCtor
      in fold (mapFamily env) (includeSchemaFamilies c1) c1)"

text \<open>Lines 253-341, from the state that line 251 leaves.\<close>

definition apiPass :: "Env \<Rightarrow> Ctor \<Rightarrow> Ctor" where
  "apiPass env c =
     fold (discoverAPISchemaAdapter env) (apiSchemaAdapterTypes env)
       (c\<lparr>includeDerivedPrimTypes := []\<rparr>)"

definition UsdImagingAdapterRegistry :: "Env \<Rightarrow> Ctor option" where
  "UsdImagingAdapterRegistry env =
     (let c2 = primPasses env in
      case ProcessDerivedTypes env (includeDerivedPrimTypes c2) (typeMap c2) of
        None \<Rightarrow> None
      | Some tm \<Rightarrow>
          (let c3 = c2\<lparr>typeMap := tm, adapterKeys := tm_keys tm\<rparr>;
               c4 = apiPass env c3
           in case ProcessDerivedTypes env (includeDerivedPrimTypes c4)
                     (apiSchemaTypeMap c4) of
                None \<Rightarrow> None
              | Some atm \<Rightarrow>
                  Some (c4\<lparr>apiSchemaTypeMap := atm,
                           apiSchemaAdapterKeys := tm_keys atm\<rparr>)))"

subsection \<open>Lookup and construction (lines 353-490)\<close>

definition HasAdapter :: "Env \<Rightarrow> 'a Registry_scheme \<Rightarrow> TfToken \<Rightarrow> bool" where
  "HasAdapter env r adapterKey =
     (if adapterKey = instanceAdapterKey env then True
      else map_of (typeMap r) adapterKey \<noteq> None)"

definition GetAdapterKeys :: "'a Registry_scheme \<Rightarrow> TfToken list" where
  "GetAdapterKeys r = adapterKeys r"

text \<open>
  \<^verbatim>\<open>_ConstructAdapter<T, factoryT>(adapterKey, adapterType)\<close>, lines 393-436. The
  template parameters are the type variable \<open>'a\<close> and the factory lookup
  \<open>getFactory\<close> for \<^verbatim>\<open>factoryT\<close>. The result is the shared pointer, \<open>None\<close> for
  the null one, and the diagnostics the call posts.
\<close>

definition ConstructAdapter_type ::
  "(TfType \<Rightarrow> 'a Factory option) \<Rightarrow> Env \<Rightarrow> TfToken \<Rightarrow> TfType \<Rightarrow> 'a option \<times> Diagnostic list" where
  "ConstructAdapter_type getFactory env adapterKey adapterType =
     (if (case GetPluginForType env adapterType of
            None \<Rightarrow> True
          | Some plugin \<Rightarrow> \<not> Load plugin) then
        (None, [TF_CODING_ERROR (pluginCouldNotBeLoaded adapterType)])
      else (case getFactory adapterType of
              None \<Rightarrow> (None, [TF_CODING_ERROR (cannotManufacture adapterType adapterKey)])
            | Some factory \<Rightarrow>
                (case New factory of
                   None \<Rightarrow>
                     (None, [TF_CODING_ERROR (failedToInstantiate adapterType adapterKey)])
                 | Some instance \<Rightarrow> (Some instance, []))))"

text \<open>\<^verbatim>\<open>_ConstructAdapter<T, factoryT>(adapterKey, tm)\<close>, lines 370-391.\<close>

definition ConstructAdapter_tm ::
  "(TfType \<Rightarrow> 'a Factory option) \<Rightarrow> Env \<Rightarrow> TfToken \<Rightarrow> TypeMap \<Rightarrow> 'a option \<times> Diagnostic list" where
  "ConstructAdapter_tm getFactory env adapterKey tm =
     (case map_of tm adapterKey of
        None \<Rightarrow> (None, [])
      | Some adapterType \<Rightarrow> ConstructAdapter_type getFactory env adapterKey adapterType)"

definition ConstructAdapter ::
  "Env \<Rightarrow> 'a Registry_scheme \<Rightarrow> TfToken \<Rightarrow> UsdImagingPrimAdapter option \<times> Diagnostic list" where
  "ConstructAdapter env r adapterKey =
     (if adapterKey = instanceAdapterKey env then (Some UsdImagingInstanceAdapter, [])
      else ConstructAdapter_tm (GetPrimAdapterFactory env) env adapterKey (typeMap r))"

definition HasAPISchemaAdapter :: "'a Registry_scheme \<Rightarrow> TfToken \<Rightarrow> bool" where
  "HasAPISchemaAdapter r adapterKey = (map_of (apiSchemaTypeMap r) adapterKey \<noteq> None)"

definition ConstructAPISchemaAdapter ::
  "Env \<Rightarrow> 'a Registry_scheme \<Rightarrow> TfToken \<Rightarrow>
     UsdImagingAPISchemaAdapter option \<times> Diagnostic list" where
  "ConstructAPISchemaAdapter env r adapterKey =
     ConstructAdapter_tm (GetAPISchemaAdapterFactory env) env adapterKey (apiSchemaTypeMap r)"

definition GetAPISchemaAdapterKeys :: "'a Registry_scheme \<Rightarrow> TfToken list" where
  "GetAPISchemaAdapterKeys r = apiSchemaAdapterKeys r"

text \<open>Lines 474-490: the loop over the keyless types, the result vector and the
  diagnostics of the calls it makes.\<close>

fun constructKeyless ::
  "Env \<Rightarrow> TfType list \<Rightarrow> UsdImagingAPISchemaAdapter list \<times> Diagnostic list" where
  "constructKeyless env [] = ([], [])"
| "constructKeyless env (adapterType # types) =
     (case ConstructAdapter_type (GetAPISchemaAdapterFactory env) env [] adapterType of
        (r, ds) \<Rightarrow>
          (case constructKeyless env types of
             (result, ds') \<Rightarrow>
               ((case r of None \<Rightarrow> result | Some instance \<Rightarrow> instance # result),
                ds @ ds')))"

definition ConstructKeylessAPISchemaAdapters ::
  "Env \<Rightarrow> 'a Registry_scheme \<Rightarrow> UsdImagingAPISchemaAdapter list \<times> Diagnostic list" where
  "ConstructKeylessAPISchemaAdapters env r =
     constructKeyless env (keylessApiSchemaAdapterTypes r)"

subsection \<open>An example installation\<close>

text \<open>
  The metadata of ten adapter types. Among the prim adapters, \<open>CylinderAdapter\<close>
  opts in to derived types and to its schema family, the two sphere adapters claim
  the same prim type, the second with a corrupted opt-in, and \<open>AnyAdapter\<close> declares
  the empty name. Among the API schema adapters, two claim the schema \<open>X\<close>, one has
  a corrupted opt-in, two are keyless, the second of them without a factory, and one
  asks for its schema family.
\<close>

definition exampleMetadata :: "TfType \<Rightarrow> JsObject" where
  "exampleMetadata t =
     (if t = TfType ''CylinderAdapter'' then
        map_of [(''primTypeName'', JsString ''Cylinder_1''),
                (''includeDerivedPrimTypes'', JsBool True),
                (''includeSchemaFamily'', JsBool True)]
      else if t = TfType ''SphereAdapter'' then
        map_of [(''primTypeName'', JsString ''Sphere'')]
      else if t = TfType ''SphereAdapter2'' then
        map_of [(''primTypeName'', JsString ''Sphere''),
                (''includeDerivedPrimTypes'', JsInt 1),
                (''includeSchemaFamily'', JsBool True)]
      else if t = TfType ''AnyAdapter'' then
        map_of [(''primTypeName'', JsString [])]
      else if t = TfType ''XAdapter'' then
        map_of [(''apiSchemaName'', JsString ''X'')]
      else if t = TfType ''XAdapter2'' then
        map_of [(''apiSchemaName'', JsString ''X'')]
      else if t = TfType ''YAdapter'' then
        map_of [(''apiSchemaName'', JsString ''Y''),
                (''includeDerivedPrimTypes'', JsNull)]
      else if t = TfType ''KeylessAdapter'' then
        map_of [(''apiSchemaName'', JsString [])]
      else if t = TfType ''KeylessAdapter2'' then
        map_of [(''apiSchemaName'', JsString [])]
      else if t = TfType ''LightAdapter'' then
        map_of [(''apiSchemaName'', JsString ''LightAPI''),
                (''includeSchemaFamily'', JsBool True)]
      else Map.empty)"

definition examplePlugin :: PlugPlugin where
  "examplePlugin = \<lparr>GetMetadataForType = exampleMetadata, Load = True\<rparr>"

definition exampleFamily :: "TfToken \<Rightarrow> SchemaInfo list" where
  "exampleFamily f =
     (if f = ''Cylinder_1'' then
        [\<lparr>schemaIdentifier = ''Cylinder_1'', schemaType = TfType ''UsdGeomCylinder_1''\<rparr>,
         \<lparr>schemaIdentifier = ''Cylinder_2'', schemaType = TfType ''UsdGeomCylinder_2''\<rparr>]
      else if f = ''LightAPI'' then
        [\<lparr>schemaIdentifier = ''LightAPI'', schemaType = TfType ''UsdLuxLightAPI''\<rparr>,
         \<lparr>schemaIdentifier = ''LightAPI_1'', schemaType = TfType ''UsdLuxLightAPI_1''\<rparr>]
      else [])"

definition exampleTypeName :: "TfType \<Rightarrow> TfToken" where
  "exampleTypeName t =
     (if t = TfType ''UsdGeomCylinder_1'' then ''Cylinder_1''
      else if t = TfType ''UsdGeomCylinder_2'' then ''Cylinder_2''
      else if t = TfType ''MyCustomCylinder'' then ''CustomCylinder''
      else if t = TfType ''UsdGeomSphere'' then ''Sphere''
      else if t = TfType ''MySphere'' then ''CustomSphere''
      else [])"

definition exampleType :: "TfToken \<Rightarrow> TfType" where
  "exampleType n =
     (if n = ''Cylinder_1'' then TfType ''UsdGeomCylinder_1''
      else if n = ''Cylinder_2'' then TfType ''UsdGeomCylinder_2''
      else if n = ''CustomCylinder'' then TfType ''MyCustomCylinder''
      else if n = ''Sphere'' then TfType ''UsdGeomSphere''
      else if n = ''CustomSphere'' then TfType ''MySphere''
      else UnknownTfType)"

definition exampleDerived :: "TfType \<Rightarrow> TfType list" where
  "exampleDerived t =
     (if t = TfType ''UsdGeomCylinder_2'' then [TfType ''MyCustomCylinder'']
      else if t = TfType ''UsdGeomSphere'' then [TfType ''MySphere'']
      else [])"

definition exampleEnv :: Env where
  "exampleEnv =
     \<lparr>GetPluginForType = (\<lambda>t. if t = TfType ''Ghost'' then None else Some examplePlugin),
      AreExternalPluginsEnabled = True,
      primAdapterTypes =
        [TfType ''CylinderAdapter'', TfType ''SphereAdapter'', TfType ''SphereAdapter2'',
         TfType ''AnyAdapter''],
      apiSchemaAdapterTypes =
        [TfType ''XAdapter'', TfType ''XAdapter2'', TfType ''YAdapter'',
         TfType ''KeylessAdapter'', TfType ''KeylessAdapter2'', TfType ''LightAdapter''],
      FindSchemaInfosInFamily = exampleFamily,
      GetSchemaTypeName = exampleTypeName,
      GetTypeFromSchemaTypeName = exampleType,
      GetDirectlyDerivedTypes = exampleDerived,
      GetPrimAdapterFactory =
        (\<lambda>t. if t = TfType ''CylinderAdapter'' then Some (Factory (Some (PluginPrimAdapter 1)))
             else if t = TfType ''SphereAdapter'' then Some (Factory None)
             else None),
      GetAPISchemaAdapterFactory =
        (\<lambda>t. if t = TfType ''KeylessAdapter'' then
               Some (Factory (Some (PluginAPISchemaAdapter 7)))
             else None),
      instanceAdapterKey = ''__instanceAdapter''\<rparr>"

text \<open>The registry that the constructor builds for the example installation.\<close>

definition exampleRegistry :: Ctor where
  "exampleRegistry =
     \<lparr>typeMap =
        [(''Cylinder_1'', TfType ''CylinderAdapter''),
         (''Sphere'', TfType ''SphereAdapter2''),
         ([], TfType ''AnyAdapter''),
         (''Cylinder_2'', TfType ''CylinderAdapter''),
         (''CustomCylinder'', TfType ''CylinderAdapter'')],
      adapterKeys = [''Cylinder_1'', ''Sphere'', [], ''Cylinder_2'', ''CustomCylinder''],
      apiSchemaTypeMap =
        [(''X'', TfType ''XAdapter2''), (''Y'', TfType ''YAdapter''),
         (''LightAPI'', TfType ''LightAdapter'')],
      apiSchemaAdapterKeys = [''X'', ''Y'', ''LightAPI''],
      keylessApiSchemaAdapterTypes = [TfType ''KeylessAdapter'', TfType ''KeylessAdapter2''],
      includeDerivedPrimTypes = [],
      includeSchemaFamilies = [(''Cylinder_1'', True)],
      diagnostics =
        [TF_CODING_ERROR
           (primAdapterAlreadyExists ''Sphere'' (TfType ''SphereAdapter2'')
              (TfType ''SphereAdapter'')),
         TF_RUNTIME_ERROR (includeDerivedPrimTypesCorrupted (TfType ''SphereAdapter2'')),
         TF_RUNTIME_ERROR (includeDerivedPrimTypesCorrupted (TfType ''YAdapter''))]\<rparr>"

text \<open>A state of the constructor after Pass 1 in which the second cylinder schema has
  an adapter of its own.\<close>

definition twoCylinderAdapters :: Ctor where
  "twoCylinderAdapters =
     emptyCtor\<lparr>typeMap := [(''Cylinder_1'', TfType ''CylinderAdapter''),
                            (''Cylinder_2'', TfType ''Cylinder2Adapter'')],
               includeSchemaFamilies := [(''Cylinder_1'', False)]\<rparr>"

subsection \<open>Types that derived-type propagation can reach\<close>

text \<open>
  A notion of the specification, not a function of the source: \<open>unshadowed env tm stack t\<close>
  says that \<open>t\<close> is reached from a type on the stack by going to directly derived
  types, and that \<open>t\<close> and every type passed on the way has a schema type name that is
  not empty and not a key of \<open>tm\<close>.
\<close>

inductive unshadowed :: "Env \<Rightarrow> TypeMap \<Rightarrow> TfType list \<Rightarrow> TfType \<Rightarrow> bool"
  for env :: Env and tm :: TypeMap and stack :: "TfType list" where
  top: "t \<in> set stack \<Longrightarrow> GetSchemaTypeName env t \<noteq> [] \<Longrightarrow>
        map_of tm (GetSchemaTypeName env t) = None \<Longrightarrow> unshadowed env tm stack t"
| below: "unshadowed env tm stack u \<Longrightarrow> t \<in> set (GetDirectlyDerivedTypes env u) \<Longrightarrow>
        GetSchemaTypeName env t \<noteq> [] \<Longrightarrow>
        map_of tm (GetSchemaTypeName env t) = None \<Longrightarrow> unshadowed env tm stack t"

text \<open>
  The example installation with a schema registry in which the second variant of the
  cylinder family has an identifier, \<open>Cylinder_2_0\<close>, that is not the schema type name
  of its type, \<open>Cylinder_2\<close>.
\<close>

definition driftFamily :: "TfToken \<Rightarrow> SchemaInfo list" where
  "driftFamily f =
     (if f = ''Cylinder_1'' then
        [\<lparr>schemaIdentifier = ''Cylinder_1'', schemaType = TfType ''UsdGeomCylinder_1''\<rparr>,
         \<lparr>schemaIdentifier = ''Cylinder_2_0'', schemaType = TfType ''UsdGeomCylinder_2''\<rparr>]
      else [])"

definition driftEnv :: Env where
  "driftEnv = exampleEnv\<lparr>FindSchemaInfosInFamily := driftFamily\<rparr>"

text \<open>The prim type map of \<open>driftEnv\<close> after Pass 2 and after Pass 3.\<close>

definition driftPass2 :: TypeMap where
  "driftPass2 =
     [(''Cylinder_1'', TfType ''CylinderAdapter''),
      (''Sphere'', TfType ''SphereAdapter2''),
      ([], TfType ''AnyAdapter''),
      (''Cylinder_2_0'', TfType ''CylinderAdapter'')]"

definition driftPass3 :: TypeMap where
  "driftPass3 =
     driftPass2 @ [(''Cylinder_2'', UnknownTfType), (''CustomCylinder'', UnknownTfType)]"

text \<open>A traversal in the example installation: the sphere type is on top of the stack,
  the second cylinder type below it, and \<open>Sphere\<close> has an adapter already.\<close>

definition sphereMapped :: TypeMap where
  "sphereMapped = [(''Sphere'', TfType ''SphereAdapter'')]"

definition sphereAndCylinder :: "TfType list" where
  "sphereAndCylinder = [TfType ''UsdGeomSphere'', TfType ''UsdGeomCylinder_2'']"

subsection \<open>The name a candidate is written under\<close>

text \<open>
  A notion of the specification, not a function of the source: the candidates that a
  discovery loop does not skip before its write are those that have a plugin, are
  enabled, and hold a string under the name key of the loop (\<open>primTypeName\<close> or
  \<open>apiSchemaName\<close>). \<open>acceptedName\<close> is that string.
\<close>

definition acceptedName :: "Env \<Rightarrow> string \<Rightarrow> TfType \<Rightarrow> TfToken option" where
  "acceptedName env key t =
     (case GetPluginForType env t of
        None \<Rightarrow> None
      | Some plugin \<Rightarrow>
          (case isEnabled env (GetMetadataForType plugin t) of
             Some True \<Rightarrow>
               (case GetMetadataForType plugin t key of
                  Some (JsString name) \<Rightarrow> Some name
                | _ \<Rightarrow> None)
           | _ \<Rightarrow> None))"

text \<open>
  An installation with two prim adapters for \<open>Sphere\<close>: the loop visits
  \<open>SphereAdapter\<close> first and \<open>SphereFamilyAdapter\<close>, which asks for its schema family,
  second. The family of \<open>Sphere\<close> has the variants \<open>Sphere\<close> and \<open>Sphere_1\<close>.
\<close>

definition sphereMetadata :: "TfType \<Rightarrow> JsObject" where
  "sphereMetadata t =
     (if t = TfType ''SphereAdapter'' then
        map_of [(''primTypeName'', JsString ''Sphere'')]
      else if t = TfType ''SphereFamilyAdapter'' then
        map_of [(''primTypeName'', JsString ''Sphere''),
                (''includeSchemaFamily'', JsBool True)]
      else Map.empty)"

definition spherePlugin :: PlugPlugin where
  "spherePlugin = \<lparr>GetMetadataForType = sphereMetadata, Load = True\<rparr>"

definition sphereFamily :: "TfToken \<Rightarrow> SchemaInfo list" where
  "sphereFamily f =
     (if f = ''Sphere'' then
        [\<lparr>schemaIdentifier = ''Sphere'', schemaType = TfType ''UsdGeomSphere''\<rparr>,
         \<lparr>schemaIdentifier = ''Sphere_1'', schemaType = TfType ''UsdGeomSphere_1''\<rparr>]
      else [])"

definition sphereEnv :: Env where
  "sphereEnv =
     exampleEnv\<lparr>GetPluginForType := (\<lambda>t. Some spherePlugin),
                 primAdapterTypes := [TfType ''SphereAdapter'', TfType ''SphereFamilyAdapter''],
                 apiSchemaAdapterTypes := [],
                 FindSchemaInfosInFamily := sphereFamily\<rparr>"

lemmas example_defs =
  exampleEnv_def examplePlugin_def exampleMetadata_def exampleFamily_def
  exampleTypeName_def exampleType_def exampleDerived_def

lemmas ctor_defs =
  UsdImagingAdapterRegistry_def primPasses_def apiPass_def emptyCtor_def
  discoverPrimAdapter_def primWrite_def primDerivedOptIn_def primFamilyOptIn_def
  discoverAPISchemaAdapter_def apiDerivedOptIn_def isEnabled_def post_def
  mapFamily_def mapFamilySchema_def derivedRoot_def derivedStep_def
  tm_count_def tm_index_def tm_assign_def tm_emplace_def tm_keys_def Let_def

section \<open>Construction by type\<close>

text \<open>
  C7. \<open>ConstructAdapter_type\<close> returns the null pointer in three cases, each with one
  coding error and nothing else: the plugin is missing or does not load, the type has
  no factory of the family, the factory makes nothing. In every other case it returns
  the instance the factory made and posts nothing. This holds for any factory lookup,
  so for the prim adapter and the API schema adapter instantiation alike.
\<close>

theorem ConstructAdapter_type_contract:
  fixes getFactory :: "TfType \<Rightarrow> 'a Factory option"
  defines "activationFails env t \<equiv>
             (GetPluginForType env t = None \<or>
              (\<exists>p. GetPluginForType env t = Some p \<and> \<not> Load p))"
  shows "(activationFails env t \<longrightarrow>
            ConstructAdapter_type getFactory env k t =
              (None, [TF_CODING_ERROR (pluginCouldNotBeLoaded t)]))
       \<and> (\<not> activationFails env t \<and> getFactory t = None \<longrightarrow>
            ConstructAdapter_type getFactory env k t =
              (None, [TF_CODING_ERROR (cannotManufacture t k)]))
       \<and> (\<not> activationFails env t \<and> getFactory t = Some f \<and> New f = None \<longrightarrow>
            ConstructAdapter_type getFactory env k t =
              (None, [TF_CODING_ERROR (failedToInstantiate t k)]))
       \<and> (\<not> activationFails env t \<and> getFactory t = Some f \<and> New f = Some i \<longrightarrow>
            ConstructAdapter_type getFactory env k t = (Some i, []))"
  unfolding activationFails_def ConstructAdapter_type_def
  by (auto split: option.splits)

text \<open>The four cases in the example installation: a type without a plugin, a type
  without a prim adapter factory, a factory that makes nothing, and a factory that
  makes an adapter; the last for both families.\<close>

theorem ConstructAdapter_type_contract_witness:
  "ConstructAdapter_type (GetPrimAdapterFactory exampleEnv) exampleEnv ''Ghost'' (TfType ''Ghost'')
     = (None, [TF_CODING_ERROR (pluginCouldNotBeLoaded (TfType ''Ghost''))])
   \<and> ConstructAdapter_type (GetPrimAdapterFactory exampleEnv) exampleEnv [] (TfType ''AnyAdapter'')
     = (None, [TF_CODING_ERROR (cannotManufacture (TfType ''AnyAdapter'') [])])
   \<and> ConstructAdapter_type (GetPrimAdapterFactory exampleEnv) exampleEnv ''Sphere''
        (TfType ''SphereAdapter'')
     = (None, [TF_CODING_ERROR (failedToInstantiate (TfType ''SphereAdapter'') ''Sphere'')])
   \<and> ConstructAdapter_type (GetPrimAdapterFactory exampleEnv) exampleEnv ''Cylinder_1''
        (TfType ''CylinderAdapter'')
     = (Some (PluginPrimAdapter 1), [])
   \<and> ConstructAdapter_type (GetAPISchemaAdapterFactory exampleEnv) exampleEnv []
        (TfType ''KeylessAdapter'')
     = (Some (PluginAPISchemaAdapter 7), [])"
proof -
  have ghost: "GetPluginForType exampleEnv (TfType ''Ghost'') = None"
    by (simp add: exampleEnv_def)
  have live: "\<not> (GetPluginForType exampleEnv (TfType n) = None \<or>
                 (\<exists>p. GetPluginForType exampleEnv (TfType n) = Some p \<and> \<not> Load p))"
    if "n \<noteq> ''Ghost''" for n
    using that by (simp add: exampleEnv_def examplePlugin_def)
  have any: "GetPrimAdapterFactory exampleEnv (TfType ''AnyAdapter'') = None"
    by (simp add: exampleEnv_def)
  have sphere: "GetPrimAdapterFactory exampleEnv (TfType ''SphereAdapter'') = Some (Factory None)"
    by (simp add: exampleEnv_def)
  have cyl: "GetPrimAdapterFactory exampleEnv (TfType ''CylinderAdapter'')
               = Some (Factory (Some (PluginPrimAdapter 1)))"
    by (simp add: exampleEnv_def)
  have keyless: "GetAPISchemaAdapterFactory exampleEnv (TfType ''KeylessAdapter'')
               = Some (Factory (Some (PluginAPISchemaAdapter 7)))"
    by (simp add: exampleEnv_def)
  show ?thesis
    using ConstructAdapter_type_contract
            [of exampleEnv "TfType ''Ghost''" "GetPrimAdapterFactory exampleEnv" "''Ghost''"]
          ConstructAdapter_type_contract
            [of exampleEnv "TfType ''AnyAdapter''" "GetPrimAdapterFactory exampleEnv" "[]"]
          ConstructAdapter_type_contract
            [of exampleEnv "TfType ''SphereAdapter''" "GetPrimAdapterFactory exampleEnv"
                "''Sphere''" "Factory None"]
          ConstructAdapter_type_contract
            [of exampleEnv "TfType ''CylinderAdapter''" "GetPrimAdapterFactory exampleEnv"
                "''Cylinder_1''" "Factory (Some (PluginPrimAdapter 1))" "PluginPrimAdapter 1"]
          ConstructAdapter_type_contract
            [of exampleEnv "TfType ''KeylessAdapter''" "GetAPISchemaAdapterFactory exampleEnv"
                "[]" "Factory (Some (PluginAPISchemaAdapter 7))" "PluginAPISchemaAdapter 7"]
          ghost live [of "''AnyAdapter''"] live [of "''SphereAdapter''"]
          live [of "''CylinderAdapter''"] live [of "''KeylessAdapter''"]
          any sphere cyl keyless
    by simp
qed

section \<open>The built-in instance adapter\<close>

text \<open>
  C6. For the reserved key \<open>instanceAdapterKey\<close>, \<open>HasAdapter\<close> is true in every
  registry, the one with an empty prim type map included, and \<open>ConstructAdapter\<close>
  returns the built-in instance adapter and posts nothing, whatever the type map holds
  under that key and whatever the plugins and factories are.
\<close>

theorem instanceAdapterKey_builtin:
  "HasAdapter env r (instanceAdapterKey env)
   \<and> HasAdapter env (r\<lparr>typeMap := []\<rparr>) (instanceAdapterKey env)
   \<and> ConstructAdapter env r (instanceAdapterKey env) = (Some UsdImagingInstanceAdapter, [])"
  by (simp add: HasAdapter_def ConstructAdapter_def)

section \<open>The type map operations\<close>

lemma map_of_tm_assign: "map_of (tm_assign k v tm) = (map_of tm)(k \<mapsto> v)"
  by (simp add: tm_assign_def update_conv')

lemma map_of_tm_emplace:
  "map_of (fst (tm_emplace k v tm)) x =
     (if x = k \<and> map_of tm k = None then Some v else map_of tm x)"
  by (auto simp: tm_emplace_def map_add_def split: option.splits)

lemma snd_tm_emplace: "snd (tm_emplace k v tm) = (map_of tm k = None)"
  by (simp add: tm_emplace_def split: option.splits)

lemma map_of_tm_index:
  "map_of (snd (tm_index tm k)) x =
     (if x = k \<and> map_of tm k = None then Some UnknownTfType else map_of tm x)"
  by (auto simp: tm_index_def map_add_def split: option.splits)

lemma fst_tm_index:
  "fst (tm_index tm k) = (case map_of tm k of None \<Rightarrow> UnknownTfType | Some v \<Rightarrow> v)"
  by (simp add: tm_index_def split: option.splits)

lemma tm_index_present: "map_of tm k = Some v \<Longrightarrow> tm_index tm k = (v, tm)"
  by (simp add: tm_index_def)

section \<open>Pass 2 keeps what is there\<close>

lemma mapFamilySchema_typeMap:
  "typeMap (mapFamilySchema env a d s c) = fst (tm_emplace (schemaIdentifier s) a (typeMap c))"
  by (simp add: mapFamilySchema_def Let_def split: prod.splits)

lemma mapFamilySchema_keeps:
  "map_of (typeMap c) k = Some v \<Longrightarrow> map_of (typeMap (mapFamilySchema env a d s c)) k = Some v"
  by (auto simp: mapFamilySchema_typeMap map_of_tm_emplace)

lemma fold_mapFamilySchema_keeps:
  "map_of (typeMap c) k = Some v \<Longrightarrow>
   map_of (typeMap (fold (mapFamilySchema env a d) infos c)) k = Some v"
  by (induction infos arbitrary: c) (simp_all add: mapFamilySchema_keeps)

lemma mapFamily_keeps:
  assumes "map_of (typeMap c) k = Some v"
  shows "map_of (typeMap (mapFamily env pair c)) k = Some v"
proof -
  obtain a tm where idx: "tm_index (typeMap c) (fst pair) = (a, tm)"
    by (cases "tm_index (typeMap c) (fst pair)")
  have "map_of tm k = Some v"
    using assms map_of_tm_index [of "typeMap c" "fst pair" k] idx by (auto split: if_splits)
  then show ?thesis
    by (simp add: mapFamily_def Let_def idx fold_mapFamilySchema_keeps)
qed

text \<open>
  C4. Pass 2 is the fold of \<open>mapFamily\<close> over the recorded pairs. Whatever the pairs
  and their order, a key that the prim type map holds before the pass holds the same
  adapter type after it.
\<close>

theorem family_propagation_never_overwrites:
  "map_of (typeMap c) k = Some v \<Longrightarrow>
   map_of (typeMap (fold (mapFamily env) pairs c)) k = Some v"
  by (induction pairs arbitrary: c) (simp_all add: mapFamily_keeps)

text \<open>The second cylinder schema keeps its own adapter when the family of the first
  is propagated.\<close>

theorem family_propagation_never_overwrites_witness:
  "map_of (typeMap twoCylinderAdapters) ''Cylinder_2'' = Some (TfType ''Cylinder2Adapter'')
   \<and> map_of (typeMap (fold (mapFamily exampleEnv) (includeSchemaFamilies twoCylinderAdapters)
                          twoCylinderAdapters)) ''Cylinder_2''
       = Some (TfType ''Cylinder2Adapter'')"
proof -
  have h: "map_of (typeMap twoCylinderAdapters) ''Cylinder_2'' = Some (TfType ''Cylinder2Adapter'')"
    by (simp add: twoCylinderAdapters_def emptyCtor_def)
  show ?thesis
    using h family_propagation_never_overwrites [OF h] by simp
qed

section \<open>The example installation\<close>

lemma example_registry: "UsdImagingAdapterRegistry exampleEnv = Some exampleRegistry"
  by (simp add: ctor_defs example_defs exampleRegistry_def derivedLoop.simps)

section \<open>A corrupted opt-in to derived types\<close>

text \<open>
  C5. A candidate has a plugin, is enabled, and its \<open>includeDerivedPrimTypes\<close> value
  is present and not a boolean. If it is a prim adapter with a string
  \<open>primTypeName\<close>, or an API schema adapter with a non-empty string
  \<open>apiSchemaName\<close>, its round of the loop is the write of lines 123-131 (or line 323)
  followed by one runtime error and nothing else: the name is mapped to the candidate's
  type, and neither opt-in vector changes.
\<close>

theorem corrupted_includeDerived_keeps_write:
  assumes "GetPluginForType env t = Some p"
    and "isEnabled env (GetMetadataForType p t) = Some True"
    and "GetMetadataForType p t ''includeDerivedPrimTypes'' = Some v"
    and "\<not> IsBool v"
  shows "(GetMetadataForType p t ''primTypeName'' = Some (JsString n) \<longrightarrow>
           discoverPrimAdapter env t c =
             post (TF_RUNTIME_ERROR (includeDerivedPrimTypesCorrupted t)) (primWrite t n c)
           \<and> map_of (typeMap (discoverPrimAdapter env t c)) n = Some t
           \<and> includeDerivedPrimTypes (discoverPrimAdapter env t c) = includeDerivedPrimTypes c
           \<and> includeSchemaFamilies (discoverPrimAdapter env t c) = includeSchemaFamilies c
           \<and> last (diagnostics (discoverPrimAdapter env t c)) =
               TF_RUNTIME_ERROR (includeDerivedPrimTypesCorrupted t))
       \<and> (GetMetadataForType p t ''apiSchemaName'' = Some (JsString n) \<and> n \<noteq> [] \<longrightarrow>
           discoverAPISchemaAdapter env t c =
             post (TF_RUNTIME_ERROR (includeDerivedPrimTypesCorrupted t))
               (c\<lparr>apiSchemaTypeMap := tm_assign n t (apiSchemaTypeMap c)\<rparr>)
           \<and> map_of (apiSchemaTypeMap (discoverAPISchemaAdapter env t c)) n = Some t
           \<and> includeDerivedPrimTypes (discoverAPISchemaAdapter env t c) = includeDerivedPrimTypes c
           \<and> last (diagnostics (discoverAPISchemaAdapter env t c)) =
               TF_RUNTIME_ERROR (includeDerivedPrimTypesCorrupted t))"
proof -
  have opt: "primDerivedOptIn (GetMetadataForType p t) t n c' =
               post (TF_RUNTIME_ERROR (includeDerivedPrimTypesCorrupted t)) c'" for c'
    using assms(3,4) by (cases v) (simp_all add: primDerivedOptIn_def)
  have aopt: "apiDerivedOptIn (GetMetadataForType p t) t n c' =
               post (TF_RUNTIME_ERROR (includeDerivedPrimTypesCorrupted t)) c'" for c'
    using assms(3,4) by (cases v) (simp_all add: apiDerivedOptIn_def)
  have w: "map_of (typeMap (primWrite t n c)) n = Some t"
    by (simp add: primWrite_def Let_def map_of_tm_assign split: prod.splits)
  have wd: "includeDerivedPrimTypes (primWrite t n c) = includeDerivedPrimTypes c"
    by (simp add: primWrite_def Let_def post_def split: prod.splits)
  have wf: "includeSchemaFamilies (primWrite t n c) = includeSchemaFamilies c"
    by (simp add: primWrite_def Let_def post_def split: prod.splits)
  show ?thesis
    using assms(1,2) opt aopt w wd wf
    by (simp add: discoverPrimAdapter_def discoverAPISchemaAdapter_def Let_def post_def
                  map_of_tm_assign)
qed

text \<open>In the example installation: the second sphere adapter, whose opt-in is a number,
  and \<open>YAdapter\<close>, whose opt-in is null.\<close>

theorem corrupted_includeDerived_keeps_write_witness:
  "map_of (typeMap (discoverPrimAdapter exampleEnv (TfType ''SphereAdapter2'') emptyCtor)) ''Sphere''
     = Some (TfType ''SphereAdapter2'')
   \<and> diagnostics (discoverPrimAdapter exampleEnv (TfType ''SphereAdapter2'') emptyCtor)
     = [TF_RUNTIME_ERROR (includeDerivedPrimTypesCorrupted (TfType ''SphereAdapter2''))]
   \<and> map_of (apiSchemaTypeMap (discoverAPISchemaAdapter exampleEnv (TfType ''YAdapter'') emptyCtor)) ''Y''
     = Some (TfType ''YAdapter'')
   \<and> diagnostics (discoverAPISchemaAdapter exampleEnv (TfType ''YAdapter'') emptyCtor)
     = [TF_RUNTIME_ERROR (includeDerivedPrimTypesCorrupted (TfType ''YAdapter''))]"
proof -
  have p: "GetPluginForType exampleEnv (TfType ''SphereAdapter2'') = Some examplePlugin"
          "GetPluginForType exampleEnv (TfType ''YAdapter'') = Some examplePlugin"
    by (simp_all add: exampleEnv_def)
  have e: "isEnabled exampleEnv m = Some True" for m
    by (simp add: isEnabled_def exampleEnv_def)
  have m1: "GetMetadataForType examplePlugin (TfType ''SphereAdapter2'') ''includeDerivedPrimTypes''
              = Some (JsInt 1)"
           "GetMetadataForType examplePlugin (TfType ''SphereAdapter2'') ''primTypeName''
              = Some (JsString ''Sphere'')"
    by (simp_all add: examplePlugin_def exampleMetadata_def)
  have m2: "GetMetadataForType examplePlugin (TfType ''YAdapter'') ''includeDerivedPrimTypes''
              = Some JsNull"
           "GetMetadataForType examplePlugin (TfType ''YAdapter'') ''apiSchemaName''
              = Some (JsString ''Y'')"
    by (simp_all add: examplePlugin_def exampleMetadata_def)
  have n1: "\<not> IsBool (JsInt 1)" and n2: "\<not> IsBool JsNull"
    by simp_all
  show ?thesis
    using corrupted_includeDerived_keeps_write
            [OF p(1) e m1(1) n1, of "''Sphere''" emptyCtor]
          corrupted_includeDerived_keeps_write
            [OF p(2) e m2(1) n2, of "''Y''" emptyCtor] m1(2) m2(2)
    by (simp add: post_def primWrite_def tm_count_def emptyCtor_def tm_assign_def)
qed

section \<open>Two adapters for one name\<close>

text \<open>
  What lines 123-131 do for a prim adapter whose name is already a key: a coding error
  that names the prim type, the new adapter and the one it replaces, then the write.
\<close>

lemma primWrite_conflict:
  assumes "map_of (typeMap c) n = Some old"
  shows "primWrite t n c =
           (c\<lparr>typeMap := tm_assign n t (typeMap c),
              diagnostics := diagnostics c @ [TF_CODING_ERROR (primAdapterAlreadyExists n t old)]\<rparr>)"
  using assms by (simp add: primWrite_def tm_count_def tm_index_def post_def)

lemma primWrite_fresh:
  assumes "map_of (typeMap c) n = None"
  shows "primWrite t n c = c\<lparr>typeMap := tm_assign n t (typeMap c)\<rparr>"
  using assms by (simp add: primWrite_def tm_count_def)

text \<open>
  C1, for the API schema adapters. In the example installation \<open>XAdapter\<close> and
  \<open>XAdapter2\<close> both declare the schema \<open>X\<close>. The round of the second overwrites the
  entry of the first and posts nothing; the registry ends with \<open>X\<close> mapped to the second
  adapter, and the only conflict among its diagnostics is the one of the two prim
  adapters for \<open>Sphere\<close>.
\<close>

theorem api_schema_conflict_not_reported:
  "discoverAPISchemaAdapter exampleEnv (TfType ''XAdapter'') emptyCtor
     = emptyCtor\<lparr>apiSchemaTypeMap := [(''X'', TfType ''XAdapter'')]\<rparr>
   \<and> discoverAPISchemaAdapter exampleEnv (TfType ''XAdapter2'')
       (emptyCtor\<lparr>apiSchemaTypeMap := [(''X'', TfType ''XAdapter'')]\<rparr>)
     = emptyCtor\<lparr>apiSchemaTypeMap := [(''X'', TfType ''XAdapter2'')]\<rparr>
   \<and> diagnostics (emptyCtor\<lparr>apiSchemaTypeMap := [(''X'', TfType ''XAdapter2'')]\<rparr>) = []
   \<and> UsdImagingAdapterRegistry exampleEnv = Some exampleRegistry
   \<and> map_of (apiSchemaTypeMap exampleRegistry) ''X'' = Some (TfType ''XAdapter2'')
   \<and> diagnostics exampleRegistry =
       [TF_CODING_ERROR
          (primAdapterAlreadyExists ''Sphere'' (TfType ''SphereAdapter2'')
             (TfType ''SphereAdapter'')),
        TF_RUNTIME_ERROR (includeDerivedPrimTypesCorrupted (TfType ''SphereAdapter2'')),
        TF_RUNTIME_ERROR (includeDerivedPrimTypesCorrupted (TfType ''YAdapter''))]"
  by (simp add: example_registry)
     (simp add: ctor_defs example_defs exampleRegistry_def)

section \<open>Pass 3: what the traversal adds\<close>

lemma derivedStep_skip:
  "GetSchemaTypeName env d = [] \<or> map_of tm (GetSchemaTypeName env d) \<noteq> None \<Longrightarrow>
   derivedStep env a d rest tm = (rest, tm)"
  by (auto simp: derivedStep_def tm_emplace_def Let_def)

lemma derivedStep_insert:
  "GetSchemaTypeName env d \<noteq> [] \<Longrightarrow> map_of tm (GetSchemaTypeName env d) = None \<Longrightarrow>
   derivedStep env a d rest tm =
     (rev (GetDirectlyDerivedTypes env d) @ rest, tm @ [(GetSchemaTypeName env d, a)])"
  by (simp add: derivedStep_def tm_emplace_def Let_def)

lemma unshadowed_pop:
  "unshadowed env tm rest t \<Longrightarrow> unshadowed env tm (d # rest) t"
  by (induction rule: unshadowed.induct) (auto intro: unshadowed.intros)

lemma unshadowed_descend:
  assumes "unshadowed env (tm @ [(GetSchemaTypeName env d, a)])
             (rev (GetDirectlyDerivedTypes env d) @ rest) t"
    and "GetSchemaTypeName env d \<noteq> []" and "map_of tm (GetSchemaTypeName env d) = None"
  shows "unshadowed env tm (d # rest) t"
  using assms
proof (induction rule: unshadowed.induct)
  case (top t)
  have d: "unshadowed env tm (d # rest) d"
    using top.prems by (auto intro: unshadowed.top)
  have n: "map_of tm (GetSchemaTypeName env t) = None"
    using top.hyps(3) by (auto simp: map_add_def split: option.splits if_splits)
  from top.hyps(1) consider "t \<in> set (GetDirectlyDerivedTypes env d)" | "t \<in> set rest"
    by auto
  then show ?case
  proof cases
    case 1
    then show ?thesis using d n top.hyps(2) by (auto intro: unshadowed.below)
  next
    case 2
    then show ?thesis using n top.hyps(2) by (auto intro: unshadowed.top)
  qed
next
  case (below u t)
  have n: "map_of tm (GetSchemaTypeName env t) = None"
    using below.hyps(4) by (auto simp: map_add_def split: option.splits if_splits)
  show ?case
    using below.IH [OF below.prems] below.hyps(2,3) n by (rule unshadowed.below)
qed

lemma derivedLoop_effect:
  assumes "derivedLoop env a stack tm = Some tm'"
  shows "(\<forall>k v. map_of tm k = Some v \<longrightarrow> map_of tm' k = Some v)
       \<and> (\<forall>k v. map_of tm k = None \<longrightarrow> map_of tm' k = Some v \<longrightarrow>
             v = a \<and> (\<exists>t. unshadowed env tm stack t \<and> GetSchemaTypeName env t = k))"
  using assms
proof (induction env a stack tm tm' rule: derivedLoop.raw_induct [rotated 1, consumes 1])
  case (1 loop env a stack tm tm')
  show ?case
  proof (cases stack)
    case Nil
    with 1(2) show ?thesis by simp
  next
    case (Cons d rest)
    show ?thesis
    proof (cases "GetSchemaTypeName env d = [] \<or> map_of tm (GetSchemaTypeName env d) \<noteq> None")
      case True
      then have "loop env a rest tm = Some tm'"
        using 1(2) Cons by (simp add: derivedStep_skip)
      from 1(1) [OF this] show ?thesis
        unfolding Cons by (blast intro: unshadowed_pop)
    next
      case False
      then have ne: "GetSchemaTypeName env d \<noteq> []"
        and fresh: "map_of tm (GetSchemaTypeName env d) = None" by auto
      let ?tm1 = "tm @ [(GetSchemaTypeName env d, a)]"
      let ?st1 = "rev (GetDirectlyDerivedTypes env d) @ rest"
      have "loop env a ?st1 ?tm1 = Some tm'"
        using 1(2) Cons ne fresh by (simp add: derivedStep_insert)
      from 1(1) [OF this]
      have keep: "\<And>k v. map_of ?tm1 k = Some v \<Longrightarrow> map_of tm' k = Some v"
        and new: "\<And>k v. map_of ?tm1 k = None \<Longrightarrow> map_of tm' k = Some v \<Longrightarrow>
                   v = a \<and> (\<exists>t. unshadowed env ?tm1 ?st1 t \<and> GetSchemaTypeName env t = k)"
        by blast+
      have d: "unshadowed env tm (d # rest) d"
        using ne fresh by (auto intro: unshadowed.top)
      have A: "map_of tm' k = Some v" if "map_of tm k = Some v" for k v
        using that keep [of k v] by (simp add: map_add_def)
      have B: "v = a \<and> (\<exists>t. unshadowed env tm (d # rest) t \<and> GetSchemaTypeName env t = k)"
        if "map_of tm k = None" "map_of tm' k = Some v" for k v
      proof (cases "k = GetSchemaTypeName env d")
        case True
        then have "map_of ?tm1 k = Some a" using fresh by (simp add: map_add_def)
        from keep [OF this] that(2) have "v = a" by simp
        with True d show ?thesis by blast
      next
        case False
        then have "map_of ?tm1 k = None" using that(1) by (simp add: map_add_def)
        from new [OF this that(2)] obtain t where
          "v = a" "unshadowed env ?tm1 ?st1 t" "GetSchemaTypeName env t = k" by blast
        then show ?thesis using unshadowed_descend [OF _ ne fresh] by blast
      qed
      show ?thesis unfolding Cons using A B by blast
    qed
  qed
qed


lemma derivedLoop_Nil: "derivedLoop env a [] tm = Some tm"
  by (subst derivedLoop.simps) simp

lemma derivedLoop_Cons:
  "derivedLoop env a (d # rest) tm =
     (case derivedStep env a d rest tm of (stack', tm') \<Rightarrow> derivedLoop env a stack' tm')"
  by (subst derivedLoop.simps) simp

subsection \<open>The loop ends when the types have finitely many names\<close>

lemma derivedLoop_terminates:
  assumes fin: "finite (range (GetSchemaTypeName env))"
  shows "\<exists>tm'. derivedLoop env a stack tm = Some tm'"
proof (induction "card (range (GetSchemaTypeName env) - fst ` set tm)" arbitrary: tm stack
         rule: less_induct)
  case less
  show ?case
  proof (induction stack)
    case Nil
    show ?case by (simp add: derivedLoop_Nil)
  next
    case (Cons d rest)
    show ?case
    proof (cases "GetSchemaTypeName env d = [] \<or> map_of tm (GetSchemaTypeName env d) \<noteq> None")
      case True
      then show ?thesis using Cons by (simp add: derivedLoop_Cons derivedStep_skip)
    next
      case False
      let ?n = "GetSchemaTypeName env d"
      let ?tm1 = "tm @ [(?n, a)]"
      from False have ne: "?n \<noteq> []" and fresh: "map_of tm ?n = None" by auto
      have notin: "?n \<notin> fst ` set tm" using fresh by (simp add: map_of_eq_None_iff)
      have "range (GetSchemaTypeName env) - fst ` set ?tm1
              \<subset> range (GetSchemaTypeName env) - fst ` set tm"
        using notin by auto
      then have "card (range (GetSchemaTypeName env) - fst ` set ?tm1)
                   < card (range (GetSchemaTypeName env) - fst ` set tm)"
        using fin by (intro psubset_card_mono) auto
      from less [OF this]
      show ?thesis using ne fresh by (simp add: derivedLoop_Cons derivedStep_insert)
    qed
  qed
qed

subsection \<open>The roots\<close>

lemma derivedRoot_effect:
  assumes "derivedRoot env n tm = Some tm'"
  shows "(\<forall>k v. map_of tm k = Some v \<longrightarrow> map_of tm' k = Some v)
       \<and> (\<forall>k v. map_of tm k = None \<longrightarrow> map_of tm' k = Some v \<longrightarrow>
             v = (case map_of tm n of None \<Rightarrow> UnknownTfType | Some a \<Rightarrow> a))"
proof (cases "GetTypeFromSchemaTypeName env n = UnknownTfType")
  case True
  then show ?thesis using assms by (simp add: derivedRoot_def)
next
  case False
  show ?thesis
  proof (cases "map_of tm n")
    case None
    then have "derivedLoop env UnknownTfType
                 (rev (GetDirectlyDerivedTypes env (GetTypeFromSchemaTypeName env n)))
                 (tm @ [(n, UnknownTfType)]) = Some tm'"
      using assms False by (simp add: derivedRoot_def tm_index_def)
    from derivedLoop_effect [OF this]
    have keep: "\<And>k v. map_of (tm @ [(n, UnknownTfType)]) k = Some v \<Longrightarrow> map_of tm' k = Some v"
      and new: "\<And>k v. map_of (tm @ [(n, UnknownTfType)]) k = None \<Longrightarrow>
                  map_of tm' k = Some v \<Longrightarrow> v = UnknownTfType"
      by blast+
    have A: "map_of tm' k = Some v" if "map_of tm k = Some v" for k v
      using that keep [of k v] by (simp add: map_add_def)
    have B: "v = UnknownTfType" if "map_of tm k = None" "map_of tm' k = Some v" for k v
    proof (cases "k = n")
      case True
      then have "map_of (tm @ [(n, UnknownTfType)]) k = Some UnknownTfType"
        using None by (simp add: map_add_def)
      from keep [OF this] that(2) show ?thesis by simp
    next
      case False
      then have "map_of (tm @ [(n, UnknownTfType)]) k = None"
        using that(1) by (simp add: map_add_def)
      from new [OF this that(2)] show ?thesis .
    qed
    show ?thesis using A B None by simp
  next
    case (Some a)
    then have "derivedLoop env a
                 (rev (GetDirectlyDerivedTypes env (GetTypeFromSchemaTypeName env n))) tm = Some tm'"
      using assms False by (simp add: derivedRoot_def tm_index_def)
    from derivedLoop_effect [OF this] show ?thesis
      using Some by simp
  qed
qed

lemma derivedRoot_terminates:
  assumes "finite (range (GetSchemaTypeName env))"
  shows "\<exists>tm'. derivedRoot env n tm = Some tm'"
  using derivedLoop_terminates [OF assms]
  by (simp add: derivedRoot_def Let_def split: prod.splits)

lemma ProcessDerivedTypes_keeps:
  "ProcessDerivedTypes env names tm = Some tm' \<Longrightarrow> map_of tm k = Some v \<Longrightarrow>
   map_of tm' k = Some v"
proof (induction names arbitrary: tm)
  case Nil
  then show ?case by simp
next
  case (Cons n names)
  then obtain tm1 where r: "derivedRoot env n tm = Some tm1"
    and p: "ProcessDerivedTypes env names tm1 = Some tm'"
    by (auto split: option.splits)
  have "map_of tm1 k = Some v" using derivedRoot_effect [OF r] Cons.prems(2) by blast
  then show ?case using Cons.IH [OF p] by simp
qed

lemma ProcessDerivedTypes_values:
  assumes "ProcessDerivedTypes env names tm = Some tm'"
    and "\<forall>n \<in> set names. map_of tm n \<noteq> None"
    and "\<forall>k v. map_of tm k = Some v \<longrightarrow> P v"
    and "map_of tm' k = Some v"
  shows "P v"
  using assms
proof (induction names arbitrary: tm)
  case Nil
  then show ?case by simp
next
  case (Cons n names)
  then obtain tm1 where r: "derivedRoot env n tm = Some tm1"
    and p: "ProcessDerivedTypes env names tm1 = Some tm'"
    by (auto split: option.splits)
  note eff = derivedRoot_effect [OF r]
  obtain a where a: "map_of tm n = Some a" using Cons.prems(2) by auto
  have 1: "\<forall>m \<in> set names. map_of tm1 m \<noteq> None"
  proof
    fix m assume "m \<in> set names"
    then obtain w where "map_of tm m = Some w" using Cons.prems(2) by auto
    then have "map_of tm1 m = Some w" using eff by blast
    then show "map_of tm1 m \<noteq> None" by simp
  qed
  have 2: "\<forall>k v. map_of tm1 k = Some v \<longrightarrow> P v"
  proof (intro allI impI)
    fix k v assume kv: "map_of tm1 k = Some v"
    show "P v"
    proof (cases "map_of tm k")
      case None
      with eff kv a have "v = a" by auto
      then show ?thesis using Cons.prems(3) a by blast
    next
      case (Some w)
      with eff kv have "v = w" by auto
      then show ?thesis using Cons.prems(3) Some by blast
    qed
  qed
  show ?case by (rule Cons.IH [OF p 1 2 Cons.prems(4)])
qed

lemma ProcessDerivedTypes_terminates:
  assumes "finite (range (GetSchemaTypeName env))"
  shows "\<exists>tm'. ProcessDerivedTypes env names tm = Some tm'"
proof (induction names arbitrary: tm)
  case Nil
  show ?case by simp
next
  case (Cons n names)
  obtain tm1 where "derivedRoot env n tm = Some tm1"
    using derivedRoot_terminates [OF assms] by blast
  then show ?case using Cons [of tm1] by simp
qed

text \<open>The constructor returns when the schema type names of all types form a finite set,
  as they do for the finitely many types of a running program.\<close>

lemma ctor_terminates:
  assumes "finite (range (GetSchemaTypeName env))"
  shows "\<exists>c. UsdImagingAdapterRegistry env = Some c"
proof -
  obtain tm where 1: "ProcessDerivedTypes env (includeDerivedPrimTypes (primPasses env))
                        (typeMap (primPasses env)) = Some tm"
    using ProcessDerivedTypes_terminates [OF assms] by blast
  let ?c4 = "apiPass env ((primPasses env)\<lparr>typeMap := tm, adapterKeys := tm_keys tm\<rparr>)"
  obtain atm where 2: "ProcessDerivedTypes env (includeDerivedPrimTypes ?c4)
                        (apiSchemaTypeMap ?c4) = Some atm"
    using ProcessDerivedTypes_terminates [OF assms] by blast
  show ?thesis
    by (simp add: UsdImagingAdapterRegistry_def Let_def 1 2)
qed

section \<open>Pass 3: an existing mapping shadows what is below it\<close>

text \<open>
  C3. One round of the traversal, for a visited subtype \<open>d\<close> with a non-empty name:
  if the name is not a key, the pair (name, ancestor's adapter type) is appended and the
  directly derived types of \<open>d\<close> are pushed; if the name is a key, whether from Pass 1,
  Pass 2 or an earlier round, the map is unchanged and nothing is pushed. For the whole
  traversal this gives: no existing entry changes, and every key it adds is mapped to
  the ancestor's adapter type and is the name of a type reached from the stack through
  types none of whose names was a key when the traversal began. So below a type whose
  name is mapped, nothing is reached through that type.
\<close>

theorem derived_propagation_shadowing:
  "(GetSchemaTypeName env d \<noteq> [] \<and> map_of tm (GetSchemaTypeName env d) = None \<longrightarrow>
      derivedStep env a d rest tm =
        (rev (GetDirectlyDerivedTypes env d) @ rest, tm @ [(GetSchemaTypeName env d, a)]))
   \<and> (map_of tm (GetSchemaTypeName env d) \<noteq> None \<longrightarrow>
      derivedStep env a d rest tm = (rest, tm))
   \<and> (derivedLoop env a stack tm = Some tm' \<longrightarrow>
      (\<forall>k v. map_of tm k = Some v \<longrightarrow> map_of tm' k = Some v)
      \<and> (\<forall>k v. map_of tm k = None \<longrightarrow> map_of tm' k = Some v \<longrightarrow>
            v = a \<and> (\<exists>t. unshadowed env tm stack t \<and> GetSchemaTypeName env t = k)))"
  using derivedStep_insert [of env d tm a rest] derivedStep_skip [of env d tm a rest]
        derivedLoop_effect [of env a stack tm tm']
  by blast

text \<open>
  In the example installation \<open>Sphere\<close> is mapped, so the traversal does not go below the
  sphere type: \<open>CustomSphere\<close> stays unmapped, while the second cylinder type and the
  custom cylinder below it get the cylinder adapter.
\<close>

lemma sphere_traversal:
  "derivedLoop exampleEnv (TfType ''CylinderAdapter'') sphereAndCylinder sphereMapped =
     Some [(''Sphere'', TfType ''SphereAdapter''),
           (''Cylinder_2'', TfType ''CylinderAdapter''),
           (''CustomCylinder'', TfType ''CylinderAdapter'')]"
  by (simp add: sphereAndCylinder_def sphereMapped_def derivedLoop.simps derivedStep_def
                tm_emplace_def Let_def example_defs)

theorem derived_propagation_shadowing_witness:
  "derivedLoop exampleEnv (TfType ''CylinderAdapter'') sphereAndCylinder sphereMapped =
     Some [(''Sphere'', TfType ''SphereAdapter''),
           (''Cylinder_2'', TfType ''CylinderAdapter''),
           (''CustomCylinder'', TfType ''CylinderAdapter'')]
   \<and> derivedStep exampleEnv (TfType ''CylinderAdapter'') (TfType ''UsdGeomSphere'')
        [TfType ''UsdGeomCylinder_2''] sphereMapped
      = ([TfType ''UsdGeomCylinder_2''], sphereMapped)
   \<and> derivedStep exampleEnv (TfType ''CylinderAdapter'') (TfType ''UsdGeomCylinder_2'') []
        sphereMapped
      = ([TfType ''MyCustomCylinder''],
         sphereMapped @ [(''Cylinder_2'', TfType ''CylinderAdapter'')])
   \<and> (\<exists>t. unshadowed exampleEnv sphereMapped sphereAndCylinder t
          \<and> GetSchemaTypeName exampleEnv t = ''CustomCylinder'')"
proof -
  let ?A = "TfType ''CylinderAdapter''"
  let ?tm' = "[(''Sphere'', TfType ''SphereAdapter''), (''Cylinder_2'', ?A),
               (''CustomCylinder'', ?A)]"
  have s: "map_of sphereMapped (GetSchemaTypeName exampleEnv (TfType ''UsdGeomSphere'')) \<noteq> None"
    by (simp add: sphereMapped_def example_defs)
  have c: "GetSchemaTypeName exampleEnv (TfType ''UsdGeomCylinder_2'') \<noteq> [] \<and>
           map_of sphereMapped (GetSchemaTypeName exampleEnv (TfType ''UsdGeomCylinder_2'')) = None"
    by (simp add: sphereMapped_def example_defs)
  have n: "GetSchemaTypeName exampleEnv (TfType ''UsdGeomCylinder_2'') = ''Cylinder_2''"
          "GetDirectlyDerivedTypes exampleEnv (TfType ''UsdGeomCylinder_2'')
             = [TfType ''MyCustomCylinder'']"
    by (simp_all add: example_defs)
  have k: "map_of sphereMapped ''CustomCylinder'' = None"
          "map_of ?tm' ''CustomCylinder'' = Some ?A"
    by (simp_all add: sphereMapped_def)
  show ?thesis
    using derived_propagation_shadowing
            [of exampleEnv "TfType ''UsdGeomSphere''" sphereMapped ?A
                "[TfType ''UsdGeomCylinder_2'']" sphereAndCylinder ?tm']
          derived_propagation_shadowing
            [of exampleEnv "TfType ''UsdGeomCylinder_2''" sphereMapped ?A "[]"
                sphereAndCylinder ?tm']
          sphere_traversal s c n k
    by simp
qed

section \<open>Pass 3: the root lookup inserts a default\<close>

text \<open>The prim type map that the constructor builds for \<open>driftEnv\<close>.\<close>

lemma drift_registry:
  "map_option typeMap (UsdImagingAdapterRegistry driftEnv) = Some driftPass3"
  by (simp add: ctor_defs example_defs driftEnv_def driftFamily_def driftPass2_def
                driftPass3_def derivedLoop.simps)

text \<open>
  C9. \<open>derivedRoot\<close> reads the adapter type of a root with \<open>tm_index\<close>, the defaulting
  access. For a root name that resolves to a type and is not a key of the map, the
  access appends the name with the unknown type; after the traversal the name is still
  mapped to the unknown type, every key the traversal added is mapped to the unknown
  type, and no older entry changed. Such a root arises from Pass 2 when the schema type
  name of a family variant is not its identifier, as in \<open>driftEnv\<close>: its finished prim
  type map holds the unknown type, which is not the type of any candidate.
\<close>

theorem defaulting_root_lookup:
  assumes "GetTypeFromSchemaTypeName env n \<noteq> UnknownTfType"
    and "map_of tm n = None"
    and "derivedRoot env n tm = Some tm'"
  shows "tm_index tm n = (UnknownTfType, tm @ [(n, UnknownTfType)])
       \<and> map_of tm' n = Some UnknownTfType
       \<and> (\<forall>k v. map_of tm k = None \<longrightarrow> map_of tm' k = Some v \<longrightarrow> v = UnknownTfType)
       \<and> (\<forall>k v. map_of tm k = Some v \<longrightarrow> map_of tm' k = Some v)
       \<and> (\<exists>env c k. UsdImagingAdapterRegistry env = Some c
              \<and> map_of (typeMap c) k = Some UnknownTfType
              \<and> UnknownTfType \<notin> set (primAdapterTypes env))"
proof -
  have idx: "tm_index tm n = (UnknownTfType, tm @ [(n, UnknownTfType)])"
    using assms(2) by (simp add: tm_index_def)
  have loop: "derivedLoop env UnknownTfType
                (rev (GetDirectlyDerivedTypes env (GetTypeFromSchemaTypeName env n)))
                (tm @ [(n, UnknownTfType)]) = Some tm'"
    using assms(1,3) idx by (simp add: derivedRoot_def)
  have "map_of (tm @ [(n, UnknownTfType)]) n = Some UnknownTfType"
    using assms(2) by (simp add: map_add_def)
  then have root: "map_of tm' n = Some UnknownTfType"
    using derivedLoop_effect [OF loop] by blast
  have rest: "(\<forall>k v. map_of tm k = None \<longrightarrow> map_of tm' k = Some v \<longrightarrow> v = UnknownTfType)
            \<and> (\<forall>k v. map_of tm k = Some v \<longrightarrow> map_of tm' k = Some v)"
    using derivedRoot_effect [OF assms(3)] assms(2) by simp
  obtain c where c: "UsdImagingAdapterRegistry driftEnv = Some c" "typeMap c = driftPass3"
    using drift_registry by auto
  have "map_of (typeMap c) ''Cylinder_2'' = Some UnknownTfType"
    by (simp add: c(2) driftPass3_def driftPass2_def)
  moreover have "UnknownTfType \<notin> set (primAdapterTypes driftEnv)"
    by (simp add: driftEnv_def exampleEnv_def)
  ultimately have ex: "\<exists>env c k. UsdImagingAdapterRegistry env = Some c
              \<and> map_of (typeMap c) k = Some UnknownTfType
              \<and> UnknownTfType \<notin> set (primAdapterTypes env)"
    using c(1) by blast
  show ?thesis using idx root rest ex by blast
qed

lemma drift_root:
  "derivedRoot driftEnv ''Cylinder_2'' driftPass2 = Some driftPass3"
  by (simp add: derivedRoot_def tm_index_def derivedLoop.simps derivedStep_def tm_emplace_def
                Let_def driftEnv_def example_defs driftPass2_def driftPass3_def)

text \<open>The root \<open>Cylinder_2\<close> of \<open>driftEnv\<close>: Pass 2 mapped the identifier
  \<open>Cylinder_2_0\<close> and enqueued the schema type name \<open>Cylinder_2\<close>.\<close>

theorem defaulting_root_lookup_witness:
  "GetTypeFromSchemaTypeName driftEnv ''Cylinder_2'' \<noteq> UnknownTfType
   \<and> map_of driftPass2 ''Cylinder_2'' = None
   \<and> derivedRoot driftEnv ''Cylinder_2'' driftPass2 = Some driftPass3
   \<and> map_of driftPass3 ''Cylinder_2'' = Some UnknownTfType
   \<and> map_of driftPass3 ''CustomCylinder'' = Some UnknownTfType
   \<and> map_of driftPass3 ''Cylinder_2_0'' = Some (TfType ''CylinderAdapter'')
   \<and> map_option typeMap (UsdImagingAdapterRegistry driftEnv) = Some driftPass3"
proof -
  have 1: "GetTypeFromSchemaTypeName driftEnv ''Cylinder_2'' \<noteq> UnknownTfType"
    by (simp add: driftEnv_def example_defs)
  have 2: "map_of driftPass2 ''Cylinder_2'' = None"
    by (simp add: driftPass2_def)
  have 3: "map_of driftPass2 ''CustomCylinder'' = None"
    by (simp add: driftPass2_def)
  have 4: "map_of driftPass3 ''CustomCylinder'' = Some UnknownTfType"
          "map_of driftPass3 ''Cylinder_2_0'' = Some (TfType ''CylinderAdapter'')"
    by (simp_all add: driftPass3_def driftPass2_def)
  show ?thesis
    using defaulting_root_lookup [OF 1 2 drift_root] 1 2 3 4 drift_root drift_registry
    by simp
qed

section \<open>Pass 1 for prim adapters\<close>

lemma acceptedNameI:
  "GetPluginForType env t = Some p \<Longrightarrow> isEnabled env (GetMetadataForType p t) = Some True \<Longrightarrow>
   GetMetadataForType p t key = Some (JsString n) \<Longrightarrow> acceptedName env key t = Some n"
  by (simp add: acceptedName_def)

lemma acceptedNameD:
  assumes "acceptedName env key t = Some n"
  shows "\<exists>p. GetPluginForType env t = Some p \<and> isEnabled env (GetMetadataForType p t) = Some True
       \<and> GetMetadataForType p t key = Some (JsString n)"
proof (cases "GetPluginForType env t")
  case None
  then show ?thesis using assms by (simp add: acceptedName_def)
next
  case (Some p)
  show ?thesis
  proof (cases "isEnabled env (GetMetadataForType p t)")
    case None
    then show ?thesis using assms Some by (simp add: acceptedName_def)
  next
    case e: (Some b)
    show ?thesis
    proof (cases b)
      case False
      then show ?thesis using assms Some e by (simp add: acceptedName_def)
    next
      case True
      show ?thesis
      proof (cases "GetMetadataForType p t key")
        case None
        then show ?thesis using assms Some e True by (simp add: acceptedName_def)
      next
        case v: (Some v)
        then show ?thesis using assms Some e True by (cases v) (simp_all add: acceptedName_def)
      qed
    qed
  qed
qed

lemma acceptedName_NoneD:
  assumes "acceptedName env key t = None" and "GetPluginForType env t = Some p"
    and "isEnabled env (GetMetadataForType p t) = Some True"
  shows "GetMetadataForType p t key = None \<or>
         (\<exists>v. GetMetadataForType p t key = Some v \<and> \<not> IsString v)"
proof (cases "GetMetadataForType p t key")
  case None
  then show ?thesis by simp
next
  case (Some v)
  then show ?thesis using assms by (cases v) (simp_all add: acceptedName_def)
qed

subsection \<open>What a round of the prim loop leaves alone\<close>

lemma post_fields [simp]:
  "typeMap (post d c) = typeMap c"
  "adapterKeys (post d c) = adapterKeys c"
  "apiSchemaTypeMap (post d c) = apiSchemaTypeMap c"
  "apiSchemaAdapterKeys (post d c) = apiSchemaAdapterKeys c"
  "keylessApiSchemaAdapterTypes (post d c) = keylessApiSchemaAdapterTypes c"
  "includeDerivedPrimTypes (post d c) = includeDerivedPrimTypes c"
  "includeSchemaFamilies (post d c) = includeSchemaFamilies c"
  "diagnostics (post d c) = diagnostics c @ [d]"
  by (simp_all add: post_def)

lemma primFamilyOptIn_fields [simp]:
  "typeMap (primFamilyOptIn m t n d c) = typeMap c"
  "adapterKeys (primFamilyOptIn m t n d c) = adapterKeys c"
  "apiSchemaTypeMap (primFamilyOptIn m t n d c) = apiSchemaTypeMap c"
  "apiSchemaAdapterKeys (primFamilyOptIn m t n d c) = apiSchemaAdapterKeys c"
  "keylessApiSchemaAdapterTypes (primFamilyOptIn m t n d c) = keylessApiSchemaAdapterTypes c"
  "includeDerivedPrimTypes (primFamilyOptIn m t n d c) = includeDerivedPrimTypes c"
  by (simp_all add: primFamilyOptIn_def split: option.splits JsValue.splits)

lemma primDerivedOptIn_fields [simp]:
  "typeMap (primDerivedOptIn m t n c) = typeMap c"
  "adapterKeys (primDerivedOptIn m t n c) = adapterKeys c"
  "apiSchemaTypeMap (primDerivedOptIn m t n c) = apiSchemaTypeMap c"
  "apiSchemaAdapterKeys (primDerivedOptIn m t n c) = apiSchemaAdapterKeys c"
  "keylessApiSchemaAdapterTypes (primDerivedOptIn m t n c) = keylessApiSchemaAdapterTypes c"
  by (simp_all add: primDerivedOptIn_def split: option.splits JsValue.splits)

lemma tm_index_count: "tm_count tm n \<noteq> 0 \<Longrightarrow> snd (tm_index tm n) = tm"
  by (simp add: tm_count_def tm_index_def split: option.splits)

lemma primWrite_fields [simp]:
  "typeMap (primWrite t n c) = tm_assign n t (typeMap c)"
  "adapterKeys (primWrite t n c) = adapterKeys c"
  "apiSchemaTypeMap (primWrite t n c) = apiSchemaTypeMap c"
  "apiSchemaAdapterKeys (primWrite t n c) = apiSchemaAdapterKeys c"
  "keylessApiSchemaAdapterTypes (primWrite t n c) = keylessApiSchemaAdapterTypes c"
  "includeDerivedPrimTypes (primWrite t n c) = includeDerivedPrimTypes c"
  "includeSchemaFamilies (primWrite t n c) = includeSchemaFamilies c"
  using tm_index_count [of "typeMap c" n]
  by (auto simp: primWrite_def Let_def split: prod.splits)

text \<open>What a round of the prim loop is, by the name the candidate is written under.\<close>

lemma discoverPrimAdapter_accepted:
  assumes "GetPluginForType env t = Some p"
    and "isEnabled env (GetMetadataForType p t) = Some True"
    and "GetMetadataForType p t ''primTypeName'' = Some (JsString n)"
  shows "discoverPrimAdapter env t c =
           primDerivedOptIn (GetMetadataForType p t) t n (primWrite t n c)"
  using assms by (simp add: discoverPrimAdapter_def)

lemma discoverPrimAdapter_skipped:
  assumes "acceptedName env ''primTypeName'' t = None"
  shows "discoverPrimAdapter env t c = c \<or>
         (\<exists>m. (m = isInternalCorrupted t \<or> m = primTypeNameNotPresent t \<or>
                m = primTypeNameCorrupted t) \<and>
              discoverPrimAdapter env t c = post (TF_RUNTIME_ERROR m) c)"
proof (cases "GetPluginForType env t")
  case None
  then show ?thesis by (auto simp: discoverPrimAdapter_def)
next
  case (Some p)
  show ?thesis
  proof (cases "isEnabled env (GetMetadataForType p t)")
    case None
    then show ?thesis using Some by (auto simp: discoverPrimAdapter_def)
  next
    case e: (Some b)
    show ?thesis
    proof (cases b)
      case False
      then show ?thesis using Some e by (auto simp: discoverPrimAdapter_def)
    next
      case True
      from acceptedName_NoneD [OF assms Some] e True
      consider "GetMetadataForType p t ''primTypeName'' = None"
        | v where "GetMetadataForType p t ''primTypeName'' = Some v" "\<not> IsString v"
        by auto
      then show ?thesis
      proof cases
        case 1
        then show ?thesis using Some e True by (auto simp: discoverPrimAdapter_def)
      next
        case 2
        then show ?thesis using Some e True
          by (cases v) (auto simp: discoverPrimAdapter_def)
      qed
    qed
  qed
qed

lemma discoverPrimAdapter_typeMap:
  "typeMap (discoverPrimAdapter env t c) =
     (case acceptedName env ''primTypeName'' t of
        None \<Rightarrow> typeMap c
      | Some n \<Rightarrow> tm_assign n t (typeMap c))"
proof (cases "acceptedName env ''primTypeName'' t")
  case None
  then show ?thesis using discoverPrimAdapter_skipped [OF None, of c] by auto
next
  case (Some n)
  then show ?thesis
    using acceptedNameD [OF Some] by (auto simp: discoverPrimAdapter_accepted)
qed

lemma discoverPrimAdapter_frame [simp]:
  "adapterKeys (discoverPrimAdapter env t c) = adapterKeys c"
  "apiSchemaTypeMap (discoverPrimAdapter env t c) = apiSchemaTypeMap c"
  "apiSchemaAdapterKeys (discoverPrimAdapter env t c) = apiSchemaAdapterKeys c"
  "keylessApiSchemaAdapterTypes (discoverPrimAdapter env t c) = keylessApiSchemaAdapterTypes c"
proof -
  show "adapterKeys (discoverPrimAdapter env t c) = adapterKeys c"
  proof (cases "acceptedName env ''primTypeName'' t")
    case None then show ?thesis using discoverPrimAdapter_skipped [OF None, of c] by auto
  next
    case (Some n) then show ?thesis
      using acceptedNameD [OF Some] by (auto simp: discoverPrimAdapter_accepted)
  qed
  show "apiSchemaTypeMap (discoverPrimAdapter env t c) = apiSchemaTypeMap c"
  proof (cases "acceptedName env ''primTypeName'' t")
    case None then show ?thesis using discoverPrimAdapter_skipped [OF None, of c] by auto
  next
    case (Some n) then show ?thesis
      using acceptedNameD [OF Some] by (auto simp: discoverPrimAdapter_accepted)
  qed
  show "apiSchemaAdapterKeys (discoverPrimAdapter env t c) = apiSchemaAdapterKeys c"
  proof (cases "acceptedName env ''primTypeName'' t")
    case None then show ?thesis using discoverPrimAdapter_skipped [OF None, of c] by auto
  next
    case (Some n) then show ?thesis
      using acceptedNameD [OF Some] by (auto simp: discoverPrimAdapter_accepted)
  qed
  show "keylessApiSchemaAdapterTypes (discoverPrimAdapter env t c) = keylessApiSchemaAdapterTypes c"
  proof (cases "acceptedName env ''primTypeName'' t")
    case None then show ?thesis using discoverPrimAdapter_skipped [OF None, of c] by auto
  next
    case (Some n) then show ?thesis
      using acceptedNameD [OF Some] by (auto simp: discoverPrimAdapter_accepted)
  qed
qed

section \<open>The loops as folds\<close>

lemma fold_invariant:
  assumes "P c" and "\<And>x c. P c \<Longrightarrow> P (f x c)"
  shows "P (fold f xs c)"
  using assms(1) by (induction xs arbitrary: c) (simp_all add: assms(2))

lemma fold_reaches:
  assumes "x \<in> set xs" and "\<And>c. Q (f x c)" and "\<And>y c. Q c \<Longrightarrow> Q (f y c)"
  shows "Q (fold f xs c)"
  using assms(1)
proof (induction xs arbitrary: c)
  case Nil
  then show ?case by simp
next
  case (Cons y ys)
  show ?case
  proof (cases "x = y")
    case True
    have "Q (f y c)" using assms(2) True by simp
    then show ?thesis using fold_invariant [of Q "f y c" f ys] assms(3) by simp
  next
    case False
    then show ?thesis using Cons by simp
  qed
qed

subsection \<open>Names written in Pass 1 stay keys\<close>

lemma map_of_tm_assign_keeps:
  "map_of tm k \<noteq> None \<Longrightarrow> map_of (tm_assign n t tm) k \<noteq> None"
  by (simp add: map_of_tm_assign)

lemma discoverPrimAdapter_keeps_keys:
  "map_of (typeMap c) k \<noteq> None \<Longrightarrow> map_of (typeMap (discoverPrimAdapter env t c)) k \<noteq> None"
  by (simp add: discoverPrimAdapter_typeMap map_of_tm_assign split: option.splits)

lemma pass1_maps_accepted:
  assumes "t \<in> set ts" and "acceptedName env ''primTypeName'' t = Some n"
  shows "map_of (typeMap (fold (discoverPrimAdapter env) ts c)) n \<noteq> None"
proof (rule fold_reaches [OF assms(1)])
  show "map_of (typeMap (discoverPrimAdapter env t c)) n \<noteq> None" for c
    by (simp add: discoverPrimAdapter_typeMap assms(2) map_of_tm_assign)
  show "map_of (typeMap (discoverPrimAdapter env y c)) n \<noteq> None"
    if "map_of (typeMap c) n \<noteq> None" for y c
    using that by (rule discoverPrimAdapter_keeps_keys)
qed

subsection \<open>What Pass 2 leaves alone\<close>

lemma mapFamilySchema_frame [simp]:
  "adapterKeys (mapFamilySchema env a d s c) = adapterKeys c"
  "apiSchemaTypeMap (mapFamilySchema env a d s c) = apiSchemaTypeMap c"
  "apiSchemaAdapterKeys (mapFamilySchema env a d s c) = apiSchemaAdapterKeys c"
  "keylessApiSchemaAdapterTypes (mapFamilySchema env a d s c) = keylessApiSchemaAdapterTypes c"
  "includeSchemaFamilies (mapFamilySchema env a d s c) = includeSchemaFamilies c"
  "diagnostics (mapFamilySchema env a d s c) = diagnostics c"
  by (simp_all add: mapFamilySchema_def Let_def split: prod.splits)

lemma mapFamily_frame [simp]:
  "adapterKeys (mapFamily env pr c) = adapterKeys c"
  "apiSchemaTypeMap (mapFamily env pr c) = apiSchemaTypeMap c"
  "apiSchemaAdapterKeys (mapFamily env pr c) = apiSchemaAdapterKeys c"
  "keylessApiSchemaAdapterTypes (mapFamily env pr c) = keylessApiSchemaAdapterTypes c"
  "includeSchemaFamilies (mapFamily env pr c) = includeSchemaFamilies c"
  "diagnostics (mapFamily env pr c) = diagnostics c"
proof -
  obtain a tm where idx: "tm_index (typeMap c) (fst pr) = (a, tm)"
    by (cases "tm_index (typeMap c) (fst pr)")
  let ?f = "mapFamilySchema env a (snd pr)"
  let ?xs = "FindSchemaInfosInFamily env (fst pr)"
  let ?c = "c\<lparr>typeMap := tm\<rparr>"
  have m: "mapFamily env pr c = fold ?f ?xs ?c"
    by (simp add: mapFamily_def Let_def idx)
  show "adapterKeys (mapFamily env pr c) = adapterKeys c"
    unfolding m by (rule fold_invariant [where P = "\<lambda>x. adapterKeys x = adapterKeys c"]) simp_all
  show "apiSchemaTypeMap (mapFamily env pr c) = apiSchemaTypeMap c"
    unfolding m
    by (rule fold_invariant [where P = "\<lambda>x. apiSchemaTypeMap x = apiSchemaTypeMap c"]) simp_all
  show "apiSchemaAdapterKeys (mapFamily env pr c) = apiSchemaAdapterKeys c"
    unfolding m
    by (rule fold_invariant [where P = "\<lambda>x. apiSchemaAdapterKeys x = apiSchemaAdapterKeys c"])
       simp_all
  show "keylessApiSchemaAdapterTypes (mapFamily env pr c) = keylessApiSchemaAdapterTypes c"
    unfolding m
    by (rule fold_invariant
          [where P = "\<lambda>x. keylessApiSchemaAdapterTypes x = keylessApiSchemaAdapterTypes c"])
       simp_all
  show "includeSchemaFamilies (mapFamily env pr c) = includeSchemaFamilies c"
    unfolding m
    by (rule fold_invariant [where P = "\<lambda>x. includeSchemaFamilies x = includeSchemaFamilies c"])
       simp_all
  show "diagnostics (mapFamily env pr c) = diagnostics c"
    unfolding m by (rule fold_invariant [where P = "\<lambda>x. diagnostics x = diagnostics c"]) simp_all
qed

lemma primPasses_frame:
  "apiSchemaTypeMap (primPasses env) = []"
  "keylessApiSchemaAdapterTypes (primPasses env) = []"
  "adapterKeys (primPasses env) = []"
  "apiSchemaAdapterKeys (primPasses env) = []"
proof -
  let ?c1 = "fold (discoverPrimAdapter env) (primAdapterTypes env) emptyCtor"
  let ?P = "\<lambda>c. apiSchemaTypeMap c = [] \<and> keylessApiSchemaAdapterTypes c = []
               \<and> adapterKeys c = [] \<and> apiSchemaAdapterKeys c = []"
  have 1: "?P ?c1"
    by (rule fold_invariant [where P = ?P]) (simp_all add: emptyCtor_def)
  have "?P (fold (mapFamily env) (includeSchemaFamilies ?c1) ?c1)"
    by (rule fold_invariant [where P = ?P, OF 1]) simp
  then show "apiSchemaTypeMap (primPasses env) = []"
    "keylessApiSchemaAdapterTypes (primPasses env) = []"
    "adapterKeys (primPasses env) = []"
    "apiSchemaAdapterKeys (primPasses env) = []"
    by (simp_all add: primPasses_def Let_def)
qed

lemma pass2_keeps_keys:
  "map_of (typeMap c) k \<noteq> None \<Longrightarrow> map_of (typeMap (fold (mapFamily env) pairs c)) k \<noteq> None"
proof -
  assume "map_of (typeMap c) k \<noteq> None"
  then obtain v where "map_of (typeMap c) k = Some v" by auto
  then have "map_of (typeMap (fold (mapFamily env) pairs c)) k = Some v"
    by (induction pairs arbitrary: c) (simp_all add: mapFamily_keeps)
  then show ?thesis by simp
qed

section \<open>Pass 1 for API schema adapters\<close>

lemma apiDerivedOptIn_cases:
  "apiDerivedOptIn m t n c = c
   \<or> apiDerivedOptIn m t n c = c\<lparr>includeDerivedPrimTypes := includeDerivedPrimTypes c @ [n]\<rparr>
   \<or> apiDerivedOptIn m t n c = post (TF_RUNTIME_ERROR (includeDerivedPrimTypesCorrupted t)) c"
proof (cases "m ''includeDerivedPrimTypes''")
  case None
  then show ?thesis by (simp add: apiDerivedOptIn_def)
next
  case (Some v)
  then show ?thesis by (cases v) (simp_all add: apiDerivedOptIn_def)
qed

lemma apiDerivedOptIn_fields [simp]:
  "typeMap (apiDerivedOptIn m t n c) = typeMap c"
  "adapterKeys (apiDerivedOptIn m t n c) = adapterKeys c"
  "apiSchemaTypeMap (apiDerivedOptIn m t n c) = apiSchemaTypeMap c"
  "apiSchemaAdapterKeys (apiDerivedOptIn m t n c) = apiSchemaAdapterKeys c"
  "keylessApiSchemaAdapterTypes (apiDerivedOptIn m t n c) = keylessApiSchemaAdapterTypes c"
  "includeSchemaFamilies (apiDerivedOptIn m t n c) = includeSchemaFamilies c"
  using apiDerivedOptIn_cases [of m t n c] by auto

lemma discoverAPISchemaAdapter_accepted:
  assumes "GetPluginForType env t = Some p"
    and "isEnabled env (GetMetadataForType p t) = Some True"
    and "GetMetadataForType p t ''apiSchemaName'' = Some (JsString n)"
  shows "discoverAPISchemaAdapter env t c =
           (if n = [] then
              c\<lparr>keylessApiSchemaAdapterTypes := keylessApiSchemaAdapterTypes c @ [t]\<rparr>
            else apiDerivedOptIn (GetMetadataForType p t) t n
                   (c\<lparr>apiSchemaTypeMap := tm_assign n t (apiSchemaTypeMap c)\<rparr>))"
  using assms by (simp add: discoverAPISchemaAdapter_def)

lemma discoverAPISchemaAdapter_skipped:
  assumes "acceptedName env ''apiSchemaName'' t = None"
  shows "discoverAPISchemaAdapter env t c = c \<or>
         (\<exists>m. (m = isInternalCorrupted t \<or> m = apiSchemaNameNotPresent t \<or>
                m = apiSchemaNameCorrupted t) \<and>
              discoverAPISchemaAdapter env t c = post (TF_RUNTIME_ERROR m) c)"
proof (cases "GetPluginForType env t")
  case None
  then show ?thesis by (auto simp: discoverAPISchemaAdapter_def)
next
  case (Some p)
  show ?thesis
  proof (cases "isEnabled env (GetMetadataForType p t)")
    case None
    then show ?thesis using Some by (auto simp: discoverAPISchemaAdapter_def)
  next
    case e: (Some b)
    show ?thesis
    proof (cases b)
      case False
      then show ?thesis using Some e by (auto simp: discoverAPISchemaAdapter_def)
    next
      case True
      from acceptedName_NoneD [OF assms Some] e True
      consider "GetMetadataForType p t ''apiSchemaName'' = None"
        | v where "GetMetadataForType p t ''apiSchemaName'' = Some v" "\<not> IsString v"
        by auto
      then show ?thesis
      proof cases
        case 1
        then show ?thesis using Some e True by (auto simp: discoverAPISchemaAdapter_def)
      next
        case 2
        then show ?thesis using Some e True
          by (cases v) (auto simp: discoverAPISchemaAdapter_def)
      qed
    qed
  qed
qed

lemma discoverAPISchemaAdapter_shape:
  "(acceptedName env ''apiSchemaName'' t = None \<and>
      (discoverAPISchemaAdapter env t c = c \<or>
       (\<exists>m. (m = isInternalCorrupted t \<or> m = apiSchemaNameNotPresent t \<or>
              m = apiSchemaNameCorrupted t) \<and>
            discoverAPISchemaAdapter env t c = post (TF_RUNTIME_ERROR m) c)))
   \<or> (acceptedName env ''apiSchemaName'' t = Some [] \<and>
      discoverAPISchemaAdapter env t c =
        c\<lparr>keylessApiSchemaAdapterTypes := keylessApiSchemaAdapterTypes c @ [t]\<rparr>)
   \<or> (\<exists>n m. n \<noteq> [] \<and> acceptedName env ''apiSchemaName'' t = Some n \<and>
      discoverAPISchemaAdapter env t c =
        apiDerivedOptIn m t n (c\<lparr>apiSchemaTypeMap := tm_assign n t (apiSchemaTypeMap c)\<rparr>))"
proof (cases "acceptedName env ''apiSchemaName'' t")
  case None
  then show ?thesis using discoverAPISchemaAdapter_skipped [OF None, of c] by simp
next
  case (Some n)
  from acceptedNameD [OF Some] obtain p where p: "GetPluginForType env t = Some p"
    "isEnabled env (GetMetadataForType p t) = Some True"
    "GetMetadataForType p t ''apiSchemaName'' = Some (JsString n)" by blast
  show ?thesis
    using discoverAPISchemaAdapter_accepted [OF p, of c] Some by (cases "n = []") auto
qed

lemma discoverAPISchemaAdapter_frame [simp]:
  "typeMap (discoverAPISchemaAdapter env t c) = typeMap c"
  "adapterKeys (discoverAPISchemaAdapter env t c) = adapterKeys c"
  "apiSchemaAdapterKeys (discoverAPISchemaAdapter env t c) = apiSchemaAdapterKeys c"
  "includeSchemaFamilies (discoverAPISchemaAdapter env t c) = includeSchemaFamilies c"
  using discoverAPISchemaAdapter_shape [of env t c] by auto

lemma discoverAPISchemaAdapter_keyless:
  "keylessApiSchemaAdapterTypes (discoverAPISchemaAdapter env t c) =
     keylessApiSchemaAdapterTypes c @
       (if acceptedName env ''apiSchemaName'' t = Some [] then [t] else [])"
  using discoverAPISchemaAdapter_shape [of env t c] by auto

lemma discoverAPISchemaAdapter_map:
  "apiSchemaTypeMap (discoverAPISchemaAdapter env t c) =
     (case acceptedName env ''apiSchemaName'' t of
        None \<Rightarrow> apiSchemaTypeMap c
      | Some n \<Rightarrow> if n = [] then apiSchemaTypeMap c else tm_assign n t (apiSchemaTypeMap c))"
  using discoverAPISchemaAdapter_shape [of env t c] by auto

lemma discoverAPISchemaAdapter_includeDerived:
  "includeDerivedPrimTypes (discoverAPISchemaAdapter env t c) = includeDerivedPrimTypes c
   \<or> (\<exists>n. n \<noteq> [] \<and> acceptedName env ''apiSchemaName'' t = Some n \<and>
          includeDerivedPrimTypes (discoverAPISchemaAdapter env t c) =
            includeDerivedPrimTypes c @ [n])"
proof -
  from discoverAPISchemaAdapter_shape [of env t c]
  consider "includeDerivedPrimTypes (discoverAPISchemaAdapter env t c) = includeDerivedPrimTypes c"
    | n m where "n \<noteq> []" "acceptedName env ''apiSchemaName'' t = Some n"
        "discoverAPISchemaAdapter env t c =
           apiDerivedOptIn m t n (c\<lparr>apiSchemaTypeMap := tm_assign n t (apiSchemaTypeMap c)\<rparr>)"
    by auto
  then show ?thesis
  proof cases
    case 1 then show ?thesis by simp
  next
    case 2
    then show ?thesis
      using apiDerivedOptIn_cases
              [of m t n "c\<lparr>apiSchemaTypeMap := tm_assign n t (apiSchemaTypeMap c)\<rparr>"]
      by auto
  qed
qed

lemma discoverAPISchemaAdapter_diagnostics:
  "d \<in> set (diagnostics (discoverAPISchemaAdapter env t c)) \<Longrightarrow>
   d \<in> set (diagnostics c) \<or>
   d \<in> {TF_RUNTIME_ERROR (isInternalCorrupted t), TF_RUNTIME_ERROR (apiSchemaNameNotPresent t),
        TF_RUNTIME_ERROR (apiSchemaNameCorrupted t),
        TF_RUNTIME_ERROR (includeDerivedPrimTypesCorrupted t)}"
proof -
  assume d: "d \<in> set (diagnostics (discoverAPISchemaAdapter env t c))"
  from discoverAPISchemaAdapter_shape [of env t c]
  consider "discoverAPISchemaAdapter env t c = c"
    | m where "m = isInternalCorrupted t \<or> m = apiSchemaNameNotPresent t \<or>
               m = apiSchemaNameCorrupted t"
        "discoverAPISchemaAdapter env t c = post (TF_RUNTIME_ERROR m) c"
    | "discoverAPISchemaAdapter env t c =
         c\<lparr>keylessApiSchemaAdapterTypes := keylessApiSchemaAdapterTypes c @ [t]\<rparr>"
    | n m where
        "discoverAPISchemaAdapter env t c =
           apiDerivedOptIn m t n (c\<lparr>apiSchemaTypeMap := tm_assign n t (apiSchemaTypeMap c)\<rparr>)"
    by auto
  then show ?thesis
  proof cases
    case 1 then show ?thesis using d by simp
  next
    case 2 then show ?thesis using d by auto
  next
    case 3 then show ?thesis using d by simp
  next
    case 4
    then show ?thesis
      using d apiDerivedOptIn_cases
              [of m t n "c\<lparr>apiSchemaTypeMap := tm_assign n t (apiSchemaTypeMap c)\<rparr>"]
      by auto
  qed
qed

section \<open>The diagnostics of the prim loop\<close>

lemma primFamilyOptIn_cases:
  "primFamilyOptIn m t n b c = c
   \<or> primFamilyOptIn m t n b c = c\<lparr>includeSchemaFamilies := includeSchemaFamilies c @ [(n, b)]\<rparr>
   \<or> primFamilyOptIn m t n b c = post (TF_RUNTIME_ERROR (includeSchemaFamilyCorrupted t)) c"
proof (cases "m ''includeSchemaFamily''")
  case None
  then show ?thesis by (simp add: primFamilyOptIn_def)
next
  case (Some v)
  then show ?thesis by (cases v) (simp_all add: primFamilyOptIn_def)
qed

lemma primFamilyOptIn_diagnostics:
  "d \<in> set (diagnostics (primFamilyOptIn m t n b c)) \<Longrightarrow>
   d \<in> set (diagnostics c) \<or> d = TF_RUNTIME_ERROR (includeSchemaFamilyCorrupted t)"
  using primFamilyOptIn_cases [of m t n b c] by auto

lemma primDerivedOptIn_cases:
  "primDerivedOptIn m t n c = primFamilyOptIn m t n False c
   \<or> primDerivedOptIn m t n c =
       primFamilyOptIn m t n True
         (c\<lparr>includeDerivedPrimTypes := includeDerivedPrimTypes c @ [n]\<rparr>)
   \<or> primDerivedOptIn m t n c = post (TF_RUNTIME_ERROR (includeDerivedPrimTypesCorrupted t)) c"
proof (cases "m ''includeDerivedPrimTypes''")
  case None
  then show ?thesis by (simp add: primDerivedOptIn_def)
next
  case (Some v)
  then show ?thesis by (cases v) (simp_all add: primDerivedOptIn_def)
qed

lemma primDerivedOptIn_diagnostics:
  assumes "d \<in> set (diagnostics (primDerivedOptIn m t n c))"
  shows "d \<in> set (diagnostics c) \<or> d = TF_RUNTIME_ERROR (includeSchemaFamilyCorrupted t)
         \<or> d = TF_RUNTIME_ERROR (includeDerivedPrimTypesCorrupted t)"
  using assms primDerivedOptIn_cases [of m t n c]
    primFamilyOptIn_diagnostics [of d m t n False c]
    primFamilyOptIn_diagnostics
      [of d m t n True "c\<lparr>includeDerivedPrimTypes := includeDerivedPrimTypes c @ [n]\<rparr>"]
  by auto

lemma primWrite_diagnostics:
  "d \<in> set (diagnostics (primWrite t n c)) \<Longrightarrow>
   d \<in> set (diagnostics c) \<or> (\<exists>old. d = TF_CODING_ERROR (primAdapterAlreadyExists n t old))"
  by (auto simp: primWrite_def Let_def split: if_splits prod.splits)

lemma discoverPrimAdapter_diagnostics:
  assumes "d \<in> set (diagnostics (discoverPrimAdapter env t c))"
  shows "d \<in> set (diagnostics c)
       \<or> (acceptedName env ''primTypeName'' t = None \<and>
          d \<in> {TF_RUNTIME_ERROR (isInternalCorrupted t),
               TF_RUNTIME_ERROR (primTypeNameNotPresent t),
               TF_RUNTIME_ERROR (primTypeNameCorrupted t)})
       \<or> d = TF_RUNTIME_ERROR (includeSchemaFamilyCorrupted t)
       \<or> d = TF_RUNTIME_ERROR (includeDerivedPrimTypesCorrupted t)
       \<or> (\<exists>n old. d = TF_CODING_ERROR (primAdapterAlreadyExists n t old))"
proof (cases "acceptedName env ''primTypeName'' t")
  case None
  then show ?thesis using assms discoverPrimAdapter_skipped [OF None, of c] by auto
next
  case (Some n)
  from acceptedNameD [OF Some] obtain p where p: "GetPluginForType env t = Some p"
    "isEnabled env (GetMetadataForType p t) = Some True"
    "GetMetadataForType p t ''primTypeName'' = Some (JsString n)" by blast
  show ?thesis
    using assms primDerivedOptIn_diagnostics [of d "GetMetadataForType p t" t n "primWrite t n c"]
      primWrite_diagnostics [of d t n c]
    unfolding discoverPrimAdapter_accepted [OF p] by blast
qed

section \<open>The constructor as a whole\<close>

lemma ctor_Some:
  assumes "UsdImagingAdapterRegistry env = Some c"
  obtains tm atm where
    "ProcessDerivedTypes env (includeDerivedPrimTypes (primPasses env))
       (typeMap (primPasses env)) = Some tm"
    "ProcessDerivedTypes env
       (includeDerivedPrimTypes
          (apiPass env ((primPasses env)\<lparr>typeMap := tm, adapterKeys := tm_keys tm\<rparr>)))
       (apiSchemaTypeMap
          (apiPass env ((primPasses env)\<lparr>typeMap := tm, adapterKeys := tm_keys tm\<rparr>)))
     = Some atm"
    "c = (apiPass env ((primPasses env)\<lparr>typeMap := tm, adapterKeys := tm_keys tm\<rparr>))
           \<lparr>apiSchemaTypeMap := atm, apiSchemaAdapterKeys := tm_keys atm\<rparr>"
  using assms
  by (auto simp: UsdImagingAdapterRegistry_def Let_def split: option.splits)

lemma apiPass_frame:
  "typeMap (apiPass env c) = typeMap c"
  "adapterKeys (apiPass env c) = adapterKeys c"
  "includeSchemaFamilies (apiPass env c) = includeSchemaFamilies c"
proof -
  let ?c = "c\<lparr>includeDerivedPrimTypes := []\<rparr>"
  let ?P = "\<lambda>x. typeMap x = typeMap c \<and> adapterKeys x = adapterKeys c
                \<and> includeSchemaFamilies x = includeSchemaFamilies c"
  have "?P (fold (discoverAPISchemaAdapter env) (apiSchemaAdapterTypes env) ?c)"
    by (rule fold_invariant [where P = ?P]) simp_all
  then show "typeMap (apiPass env c) = typeMap c"
    "adapterKeys (apiPass env c) = adapterKeys c"
    "includeSchemaFamilies (apiPass env c) = includeSchemaFamilies c"
    by (simp_all add: apiPass_def)
qed

lemma ctor_typeMap:
  assumes "UsdImagingAdapterRegistry env = Some c"
  shows "ProcessDerivedTypes env (includeDerivedPrimTypes (primPasses env))
           (typeMap (primPasses env)) = Some (typeMap c)
         \<and> adapterKeys c = tm_keys (typeMap c)"
  using assms by (elim ctor_Some) (simp add: apiPass_frame)

text \<open>An adapter whose \<open>primTypeName\<close> is a string gets no error about that name.\<close>

lemma no_prim_name_error:
  assumes acc: "acceptedName env ''primTypeName'' t = Some n"
    and c: "UsdImagingAdapterRegistry env = Some c"
    and d: "d = TF_RUNTIME_ERROR (primTypeNameNotPresent t) \<or>
            d = TF_RUNTIME_ERROR (primTypeNameCorrupted t)"
  shows "d \<notin> set (diagnostics c)"
proof -
  let ?P = "\<lambda>x. d \<notin> set (diagnostics x)"
  let ?c1 = "fold (discoverPrimAdapter env) (primAdapterTypes env) emptyCtor"
  have 1: "?P ?c1"
  proof (rule fold_invariant [where P = ?P])
    show "?P emptyCtor" by (simp add: emptyCtor_def)
    show "?P (discoverPrimAdapter env x y)" if "?P y" for x y
      using that discoverPrimAdapter_diagnostics [of d env x y] acc d by auto
  qed
  have 2: "?P (primPasses env)"
    unfolding primPasses_def Let_def
    by (rule fold_invariant [where P = ?P, OF 1]) simp
  have 3: "?P (apiPass env x)" if "?P x" for x
    unfolding apiPass_def
  proof (rule fold_invariant [where P = ?P])
    show "?P (x\<lparr>includeDerivedPrimTypes := []\<rparr>)" using that by simp
    show "?P (discoverAPISchemaAdapter env y z)" if "?P z" for y z
      using that discoverAPISchemaAdapter_diagnostics [of d env y z] d by auto
  qed
  from c show ?thesis
  proof (rule ctor_Some)
    fix tm atm
    assume "c = (apiPass env ((primPasses env)\<lparr>typeMap := tm, adapterKeys := tm_keys tm\<rparr>))
                  \<lparr>apiSchemaTypeMap := atm, apiSchemaAdapterKeys := tm_keys atm\<rparr>"
    then show ?thesis
      using 3 [of "(primPasses env)\<lparr>typeMap := tm, adapterKeys := tm_keys tm\<rparr>"] 2 by simp
  qed
qed

section \<open>A prim adapter with the empty name\<close>

text \<open>
  C10. A prim adapter candidate has a plugin, is enabled, and its \<open>primTypeName\<close> is the
  empty string. Then its round of the loop maps the empty name to it and leaves the
  keyless list alone, and in the finished registry the empty name is among the adapter
  keys, \<open>HasAdapter\<close> is true for it, and neither of the two errors about
  \<open>primTypeName\<close> has been posted for the candidate. (For an API schema adapter the
  empty name goes to the keyless list, see \<open>discoverAPISchemaAdapter_accepted\<close>.)
\<close>

theorem empty_primTypeName_is_a_key:
  assumes "UsdImagingAdapterRegistry env = Some c"
    and "t \<in> set (primAdapterTypes env)"
    and "GetPluginForType env t = Some p"
    and "isEnabled env (GetMetadataForType p t) = Some True"
    and "GetMetadataForType p t ''primTypeName'' = Some (JsString [])"
  shows "[] \<in> set (GetAdapterKeys c)
       \<and> HasAdapter env c []
       \<and> TF_RUNTIME_ERROR (primTypeNameNotPresent t) \<notin> set (diagnostics c)
       \<and> TF_RUNTIME_ERROR (primTypeNameCorrupted t) \<notin> set (diagnostics c)
       \<and> map_of (typeMap (discoverPrimAdapter env t c0)) [] = Some t
       \<and> keylessApiSchemaAdapterTypes (discoverPrimAdapter env t c0)
           = keylessApiSchemaAdapterTypes c0"
proof -
  have acc: "acceptedName env ''primTypeName'' t = Some []"
    using assms(3-5) by (rule acceptedNameI)
  let ?c1 = "fold (discoverPrimAdapter env) (primAdapterTypes env) emptyCtor"
  have "map_of (typeMap ?c1) [] \<noteq> None"
    using assms(2) acc by (rule pass1_maps_accepted)
  then have "map_of (typeMap (primPasses env)) [] \<noteq> None"
    unfolding primPasses_def Let_def by (rule pass2_keeps_keys)
  then obtain v where "map_of (typeMap (primPasses env)) [] = Some v" by auto
  then have k: "map_of (typeMap c) [] = Some v"
    using ctor_typeMap [OF assms(1)] ProcessDerivedTypes_keeps by blast
  then have "[] \<in> fst ` set (typeMap c)"
    by (metis map_of_eq_None_iff option.distinct(1))
  then have 1: "[] \<in> set (GetAdapterKeys c)"
    using ctor_typeMap [OF assms(1)] by (simp add: GetAdapterKeys_def tm_keys_def)
  have 2: "HasAdapter env c []" using k by (simp add: HasAdapter_def)
  have 3: "TF_RUNTIME_ERROR (primTypeNameNotPresent t) \<notin> set (diagnostics c)"
    "TF_RUNTIME_ERROR (primTypeNameCorrupted t) \<notin> set (diagnostics c)"
    using no_prim_name_error [OF acc assms(1)] by simp_all
  have 4: "map_of (typeMap (discoverPrimAdapter env t c0)) [] = Some t"
    by (simp add: discoverPrimAdapter_typeMap acc map_of_tm_assign)
  show ?thesis using 1 2 3 4 by simp
qed

text \<open>\<open>AnyAdapter\<close> of the example installation declares the empty prim type name.\<close>

theorem empty_primTypeName_is_a_key_witness:
  "UsdImagingAdapterRegistry exampleEnv = Some exampleRegistry
   \<and> TfType ''AnyAdapter'' \<in> set (primAdapterTypes exampleEnv)
   \<and> GetMetadataForType examplePlugin (TfType ''AnyAdapter'') ''primTypeName'' = Some (JsString [])
   \<and> [] \<in> set (GetAdapterKeys exampleRegistry)
   \<and> HasAdapter exampleEnv exampleRegistry []
   \<and> map_of (typeMap exampleRegistry) [] = Some (TfType ''AnyAdapter'')
   \<and> keylessApiSchemaAdapterTypes (discoverPrimAdapter exampleEnv (TfType ''AnyAdapter'') emptyCtor) = []"
proof -
  have 1: "TfType ''AnyAdapter'' \<in> set (primAdapterTypes exampleEnv)"
    by (simp add: exampleEnv_def)
  have 2: "GetPluginForType exampleEnv (TfType ''AnyAdapter'') = Some examplePlugin"
    by (simp add: exampleEnv_def)
  have 3: "isEnabled exampleEnv (GetMetadataForType examplePlugin (TfType ''AnyAdapter''))
             = Some True"
    by (simp add: isEnabled_def exampleEnv_def)
  have 4: "GetMetadataForType examplePlugin (TfType ''AnyAdapter'') ''primTypeName''
             = Some (JsString [])"
    by (simp add: examplePlugin_def exampleMetadata_def)
  have 5: "map_of (typeMap exampleRegistry) [] = Some (TfType ''AnyAdapter'')"
    by (simp add: exampleRegistry_def)
  show ?thesis
    using empty_primTypeName_is_a_key [OF example_registry 1 2 3 4, of emptyCtor]
          example_registry 1 4 5
    by (simp add: emptyCtor_def)
qed

section \<open>Keyless API schema adapters\<close>

lemma apiPass_keyless:
  "keylessApiSchemaAdapterTypes (apiPass env c) =
     keylessApiSchemaAdapterTypes c @
       filter (\<lambda>t. acceptedName env ''apiSchemaName'' t = Some []) (apiSchemaAdapterTypes env)"
proof -
  have "keylessApiSchemaAdapterTypes (fold (discoverAPISchemaAdapter env) ts x) =
          keylessApiSchemaAdapterTypes x @
            filter (\<lambda>t. acceptedName env ''apiSchemaName'' t = Some []) ts" for ts x
    by (induction ts arbitrary: x) (simp_all add: discoverAPISchemaAdapter_keyless)
  then show ?thesis by (simp add: apiPass_def)
qed

text \<open>
  Through the API schema loop every value of the API schema map is an adapter type that
  was written under a non-empty name, and every name recorded for Pass 3 is a key; so
  Pass 3 on that map never inserts a default and adds no other values.
\<close>

lemma apiPass_values:
  assumes "apiSchemaTypeMap c = []"
  shows "(\<forall>k v. map_of (apiSchemaTypeMap (apiPass env c)) k = Some v \<longrightarrow>
            (\<exists>n. n \<noteq> [] \<and> acceptedName env ''apiSchemaName'' v = Some n))
       \<and> (\<forall>n \<in> set (includeDerivedPrimTypes (apiPass env c)).
            map_of (apiSchemaTypeMap (apiPass env c)) n \<noteq> None)"
  unfolding apiPass_def
proof (rule fold_invariant
    [where P = "\<lambda>x::Ctor. (\<forall>k v. map_of (apiSchemaTypeMap x) k = Some v \<longrightarrow>
                        (\<exists>n. n \<noteq> [] \<and> acceptedName env ''apiSchemaName'' v = Some n))
                  \<and> (\<forall>n \<in> set (includeDerivedPrimTypes x).
                        map_of (apiSchemaTypeMap x) n \<noteq> None)"])
  show "(\<forall>k v. map_of (apiSchemaTypeMap (c\<lparr>includeDerivedPrimTypes := []\<rparr>)) k = Some v \<longrightarrow>
            (\<exists>n. n \<noteq> [] \<and> acceptedName env ''apiSchemaName'' v = Some n))
       \<and> (\<forall>n \<in> set (includeDerivedPrimTypes (c\<lparr>includeDerivedPrimTypes := []\<rparr>)).
            map_of (apiSchemaTypeMap (c\<lparr>includeDerivedPrimTypes := []\<rparr>)) n \<noteq> None)"
    using assms by simp
next
  fix t and x :: Ctor
  assume inv: "(\<forall>k v. map_of (apiSchemaTypeMap x) k = Some v \<longrightarrow>
                  (\<exists>n. n \<noteq> [] \<and> acceptedName env ''apiSchemaName'' v = Some n))
             \<and> (\<forall>n \<in> set (includeDerivedPrimTypes x). map_of (apiSchemaTypeMap x) n \<noteq> None)"
  let ?x' = "discoverAPISchemaAdapter env t x"
  show "(\<forall>k v. map_of (apiSchemaTypeMap ?x') k = Some v \<longrightarrow>
            (\<exists>n. n \<noteq> [] \<and> acceptedName env ''apiSchemaName'' v = Some n))
       \<and> (\<forall>n \<in> set (includeDerivedPrimTypes ?x'). map_of (apiSchemaTypeMap ?x') n \<noteq> None)"
  proof (cases "\<exists>n. n \<noteq> [] \<and> acceptedName env ''apiSchemaName'' t = Some n")
    case True
    then obtain n where n: "n \<noteq> []" "acceptedName env ''apiSchemaName'' t = Some n" by blast
    have m: "map_of (apiSchemaTypeMap ?x') = (map_of (apiSchemaTypeMap x))(n \<mapsto> t)"
      using n by (simp add: discoverAPISchemaAdapter_map map_of_tm_assign)
    have d: "set (includeDerivedPrimTypes ?x') \<subseteq> set (includeDerivedPrimTypes x) \<union> {n}"
      using discoverAPISchemaAdapter_includeDerived [of env t x] n by auto
    show ?thesis using inv n d unfolding m by (auto split: if_splits)
  next
    case False
    have m: "apiSchemaTypeMap ?x' = apiSchemaTypeMap x"
      using False by (auto simp: discoverAPISchemaAdapter_map split: option.splits)
    have d: "includeDerivedPrimTypes ?x' = includeDerivedPrimTypes x"
      using discoverAPISchemaAdapter_includeDerived [of env t x] False by auto
    show ?thesis using inv by (simp add: m d)
  qed
qed

lemma ctor_api_values:
  assumes "UsdImagingAdapterRegistry env = Some c" and "map_of (apiSchemaTypeMap c) k = Some v"
  shows "\<exists>n. n \<noteq> [] \<and> acceptedName env ''apiSchemaName'' v = Some n"
  using assms(1)
proof (rule ctor_Some)
  fix tm atm
  let ?c4 = "apiPass env ((primPasses env)\<lparr>typeMap := tm, adapterKeys := tm_keys tm\<rparr>)"
  assume p: "ProcessDerivedTypes env (includeDerivedPrimTypes ?c4) (apiSchemaTypeMap ?c4) = Some atm"
    and c: "c = ?c4\<lparr>apiSchemaTypeMap := atm, apiSchemaAdapterKeys := tm_keys atm\<rparr>"
  have e: "apiSchemaTypeMap ((primPasses env)\<lparr>typeMap := tm, adapterKeys := tm_keys tm\<rparr>) = []"
    by (simp add: primPasses_frame)
  note inv = apiPass_values [OF e, of env]
  have kv: "map_of atm k = Some v" using assms(2) c by simp
  show ?thesis
    by (rule ProcessDerivedTypes_values
          [where P = "\<lambda>v. \<exists>n. n \<noteq> [] \<and> acceptedName env ''apiSchemaName'' v = Some n",
           OF p conjunct2 [OF inv] conjunct1 [OF inv] kv])
qed

lemma ctor_keyless:
  assumes "UsdImagingAdapterRegistry env = Some c"
  shows "keylessApiSchemaAdapterTypes c =
           filter (\<lambda>t. acceptedName env ''apiSchemaName'' t = Some []) (apiSchemaAdapterTypes env)"
  using assms
  by (elim ctor_Some) (simp add: apiPass_keyless primPasses_frame)

lemma ctor_api_keys:
  assumes "UsdImagingAdapterRegistry env = Some c"
  shows "apiSchemaAdapterKeys c = tm_keys (apiSchemaTypeMap c)"
  using assms by (elim ctor_Some) simp

lemma constructKeyless_eq:
  "constructKeyless env ts =
     (List.map_filter
        (\<lambda>t. fst (ConstructAdapter_type (GetAPISchemaAdapterFactory env) env [] t)) ts,
      concat (map (\<lambda>t. snd (ConstructAdapter_type (GetAPISchemaAdapterFactory env) env [] t)) ts))"
  by (induction ts) (auto simp: map_filter_simps split: prod.splits option.splits)

text \<open>
  C8. An API schema adapter type whose \<open>apiSchemaName\<close> is the empty string is not the
  value of any key of the finished API schema map, whose keys are what
  \<open>GetAPISchemaAdapterKeys\<close> returns; if it is among the discovered types and enabled,
  it is in the keyless list. \<open>ConstructKeylessAPISchemaAdapters\<close> calls
  \<open>ConstructAdapter_type\<close> once for each entry of the list, in order, with the empty
  key; it returns the instances of the calls that returned one, and its diagnostics
  are those of the calls and nothing more.
\<close>

theorem keyless_api_schema_adapters:
  assumes "UsdImagingAdapterRegistry env = Some c"
    and "GetPluginForType env t = Some p"
    and "GetMetadataForType p t ''apiSchemaName'' = Some (JsString [])"
  shows "(\<forall>k. map_of (apiSchemaTypeMap c) k \<noteq> Some t)
       \<and> set (GetAPISchemaAdapterKeys c) = dom (map_of (apiSchemaTypeMap c))
       \<and> (t \<in> set (apiSchemaAdapterTypes env) \<and> isEnabled env (GetMetadataForType p t) = Some True
            \<longrightarrow> t \<in> set (keylessApiSchemaAdapterTypes c))
       \<and> fst (ConstructKeylessAPISchemaAdapters env c) =
           List.map_filter
             (\<lambda>a. fst (ConstructAdapter_type (GetAPISchemaAdapterFactory env) env [] a))
             (keylessApiSchemaAdapterTypes c)
       \<and> snd (ConstructKeylessAPISchemaAdapters env c) =
           concat (map (\<lambda>a. snd (ConstructAdapter_type (GetAPISchemaAdapterFactory env) env [] a))
                     (keylessApiSchemaAdapterTypes c))"
proof -
  have 1: "map_of (apiSchemaTypeMap c) k \<noteq> Some t" for k
  proof
    assume "map_of (apiSchemaTypeMap c) k = Some t"
    from ctor_api_values [OF assms(1) this] obtain n where
      n: "n \<noteq> []" "acceptedName env ''apiSchemaName'' t = Some n" by blast
    from acceptedNameD [OF n(2)] assms(2,3) have "n = []" by auto
    with n(1) show False by simp
  qed
  have 2: "set (GetAPISchemaAdapterKeys c) = dom (map_of (apiSchemaTypeMap c))"
    by (simp add: GetAPISchemaAdapterKeys_def ctor_api_keys [OF assms(1)] tm_keys_def dom_map_of_conv_image_fst)
  have 3: "t \<in> set (keylessApiSchemaAdapterTypes c)"
    if "t \<in> set (apiSchemaAdapterTypes env)" "isEnabled env (GetMetadataForType p t) = Some True"
    using that acceptedNameI [OF assms(2) that(2) assms(3)]
    by (simp add: ctor_keyless [OF assms(1)])
  show ?thesis
    using 1 2 3 by (simp add: ConstructKeylessAPISchemaAdapters_def constructKeyless_eq)
qed

text \<open>The two keyless adapters of the example installation: the first is constructed,
  the second has no factory and is dropped, with the one coding error of its
  construction.\<close>

theorem keyless_api_schema_adapters_witness:
  "UsdImagingAdapterRegistry exampleEnv = Some exampleRegistry
   \<and> GetMetadataForType examplePlugin (TfType ''KeylessAdapter'') ''apiSchemaName''
       = Some (JsString [])
   \<and> TfType ''KeylessAdapter'' \<in> set (apiSchemaAdapterTypes exampleEnv)
   \<and> TfType ''KeylessAdapter'' \<in> set (keylessApiSchemaAdapterTypes exampleRegistry)
   \<and> map_of (apiSchemaTypeMap exampleRegistry) ''X'' \<noteq> Some (TfType ''KeylessAdapter'')
   \<and> GetAPISchemaAdapterKeys exampleRegistry = [''X'', ''Y'', ''LightAPI'']
   \<and> ConstructKeylessAPISchemaAdapters exampleEnv exampleRegistry =
       ([PluginAPISchemaAdapter 7],
        [TF_CODING_ERROR (cannotManufacture (TfType ''KeylessAdapter2'') [])])"
proof -
  have 1: "GetPluginForType exampleEnv (TfType ''KeylessAdapter'') = Some examplePlugin"
    by (simp add: exampleEnv_def)
  have 2: "GetMetadataForType examplePlugin (TfType ''KeylessAdapter'') ''apiSchemaName''
             = Some (JsString [])"
    by (simp add: examplePlugin_def exampleMetadata_def)
  have 3: "TfType ''KeylessAdapter'' \<in> set (apiSchemaAdapterTypes exampleEnv)"
    by (simp add: exampleEnv_def)
  have 4: "isEnabled exampleEnv (GetMetadataForType examplePlugin (TfType ''KeylessAdapter''))
             = Some True"
    by (simp add: isEnabled_def exampleEnv_def)
  have 5: "GetAPISchemaAdapterKeys exampleRegistry = [''X'', ''Y'', ''LightAPI'']"
    by (simp add: GetAPISchemaAdapterKeys_def exampleRegistry_def)
  have 6: "ConstructKeylessAPISchemaAdapters exampleEnv exampleRegistry =
       ([PluginAPISchemaAdapter 7],
        [TF_CODING_ERROR (cannotManufacture (TfType ''KeylessAdapter2'') [])])"
    by (simp add: ConstructKeylessAPISchemaAdapters_def exampleRegistry_def
                  ConstructAdapter_type_def exampleEnv_def examplePlugin_def)
  show ?thesis
    using keyless_api_schema_adapters [OF example_registry 1 2] example_registry 2 3 4 5 6
    by simp
qed

section \<open>Pass 2: schema families\<close>

subsection \<open>Recording the family pairs\<close>

lemma discoverPrimAdapter_families:
  "includeSchemaFamilies (discoverPrimAdapter env t c) = includeSchemaFamilies c
   \<or> (\<exists>n d. acceptedName env ''primTypeName'' t = Some n \<and>
         includeSchemaFamilies (discoverPrimAdapter env t c) = includeSchemaFamilies c @ [(n, d)])"
proof (cases "acceptedName env ''primTypeName'' t")
  case None
  then show ?thesis using discoverPrimAdapter_skipped [OF None, of c] by auto
next
  case (Some n)
  from acceptedNameD [OF Some] obtain p where p: "GetPluginForType env t = Some p"
    "isEnabled env (GetMetadataForType p t) = Some True"
    "GetMetadataForType p t ''primTypeName'' = Some (JsString n)" by blast
  let ?m = "GetMetadataForType p t"
  let ?w = "primWrite t n c"
  show ?thesis
    using primDerivedOptIn_cases [of ?m t n ?w] primFamilyOptIn_cases [of ?m t n False ?w]
      primFamilyOptIn_cases
        [of ?m t n True "?w\<lparr>includeDerivedPrimTypes := includeDerivedPrimTypes ?w @ [n]\<rparr>"]
      Some
    unfolding discoverPrimAdapter_accepted [OF p]
    by auto
qed

lemma discoverPrimAdapter_records:
  assumes "GetPluginForType env t = Some p"
    and "isEnabled env (GetMetadataForType p t) = Some True"
    and "GetMetadataForType p t ''primTypeName'' = Some (JsString n)"
    and "GetMetadataForType p t ''includeDerivedPrimTypes'' = None \<or>
         (\<exists>b. GetMetadataForType p t ''includeDerivedPrimTypes'' = Some (JsBool b))"
    and "GetMetadataForType p t ''includeSchemaFamily'' = Some (JsBool True)"
  shows "includeSchemaFamilies (discoverPrimAdapter env t c) =
           includeSchemaFamilies c @
             [(n, GetMetadataForType p t ''includeDerivedPrimTypes'' = Some (JsBool True))]"
  using assms(4,5) unfolding discoverPrimAdapter_accepted [OF assms(1-3)]
  by (auto simp: primDerivedOptIn_def primFamilyOptIn_def)

lemma pass1_family_names_are_keys:
  "\<forall>f \<in> fst ` set (includeSchemaFamilies (fold (discoverPrimAdapter env) ts emptyCtor)).
     map_of (typeMap (fold (discoverPrimAdapter env) ts emptyCtor)) f \<noteq> None"
proof (rule fold_invariant
    [where P = "\<lambda>x::Ctor. \<forall>f \<in> fst ` set (includeSchemaFamilies x). map_of (typeMap x) f \<noteq> None"])
  show "\<forall>f \<in> fst ` set (includeSchemaFamilies emptyCtor). map_of (typeMap emptyCtor) f \<noteq> None"
    by (simp add: emptyCtor_def)
next
  fix t and x :: Ctor
  assume inv: "\<forall>f \<in> fst ` set (includeSchemaFamilies x). map_of (typeMap x) f \<noteq> None"
  let ?x' = "discoverPrimAdapter env t x"
  have keep: "map_of (typeMap ?x') f \<noteq> None" if "map_of (typeMap x) f \<noteq> None" for f
    using that by (rule discoverPrimAdapter_keeps_keys)
  from discoverPrimAdapter_families [of env t x]
  show "\<forall>f \<in> fst ` set (includeSchemaFamilies ?x'). map_of (typeMap ?x') f \<noteq> None"
  proof
    assume "includeSchemaFamilies ?x' = includeSchemaFamilies x"
    then show ?thesis using inv keep by auto
  next
    assume "\<exists>n d. acceptedName env ''primTypeName'' t = Some n \<and>
              includeSchemaFamilies ?x' = includeSchemaFamilies x @ [(n, d)]"
    then obtain n d where n: "acceptedName env ''primTypeName'' t = Some n"
      and f: "includeSchemaFamilies ?x' = includeSchemaFamilies x @ [(n, d)]" by blast
    have "map_of (typeMap ?x') n \<noteq> None"
      by (simp add: discoverPrimAdapter_typeMap n map_of_tm_assign)
    then show ?thesis using inv keep f by auto
  qed
qed

lemma pass1_records:
  assumes "t \<in> set ts"
    and "GetPluginForType env t = Some p"
    and "isEnabled env (GetMetadataForType p t) = Some True"
    and "GetMetadataForType p t ''primTypeName'' = Some (JsString n)"
    and "GetMetadataForType p t ''includeDerivedPrimTypes'' = None \<or>
         (\<exists>b. GetMetadataForType p t ''includeDerivedPrimTypes'' = Some (JsBool b))"
    and "GetMetadataForType p t ''includeSchemaFamily'' = Some (JsBool True)"
  shows "(n, GetMetadataForType p t ''includeDerivedPrimTypes'' = Some (JsBool True))
           \<in> set (includeSchemaFamilies (fold (discoverPrimAdapter env) ts c))"
proof (rule fold_reaches [OF assms(1)])
  let ?pr = "(n, GetMetadataForType p t ''includeDerivedPrimTypes'' = Some (JsBool True))"
  show "?pr \<in> set (includeSchemaFamilies (discoverPrimAdapter env t x))" for x
    by (simp add: discoverPrimAdapter_records [OF assms(2-6)])
  show "?pr \<in> set (includeSchemaFamilies (discoverPrimAdapter env y x))"
    if "?pr \<in> set (includeSchemaFamilies x)" for y x
    using that discoverPrimAdapter_families [of env y x] by auto
qed

subsection \<open>What Pass 2 adds\<close>

lemma pass2_keeps:
  "map_of (typeMap c) k = Some v \<Longrightarrow>
   map_of (typeMap (fold (mapFamily env) pairs c)) k = Some v"
  by (induction pairs arbitrary: c) (simp_all add: mapFamily_keeps)

lemma fold_mapFamilySchema_map:
  "map_of (typeMap (fold (mapFamilySchema env a d) infos c)) x =
     (if map_of (typeMap c) x = None \<and> x \<in> schemaIdentifier ` set infos then Some a
      else map_of (typeMap c) x)"
proof (induction infos arbitrary: c)
  case Nil
  show ?case by simp
next
  case (Cons s infos)
  show ?case
    by (auto simp: Cons mapFamilySchema_typeMap map_of_tm_emplace)
qed

lemma mapFamily_map:
  assumes "map_of (typeMap c) f = Some a"
  shows "map_of (typeMap (mapFamily env (f, d) c)) x =
     (if map_of (typeMap c) x = None \<and> x \<in> schemaIdentifier ` set (FindSchemaInfosInFamily env f)
      then Some a else map_of (typeMap c) x)"
  using assms by (simp add: mapFamily_def Let_def tm_index_def fold_mapFamilySchema_map)

lemma pass2_map:
  assumes "\<forall>f \<in> fst ` set ps. map_of (typeMap c) f \<noteq> None"
  shows "(\<forall>f d s. (f, d) \<in> set ps \<longrightarrow> s \<in> set (FindSchemaInfosInFamily env f) \<longrightarrow>
            map_of (typeMap (fold (mapFamily env) ps c)) (schemaIdentifier s) \<noteq> None)
       \<and> (\<forall>x v. map_of (typeMap c) x = None \<longrightarrow>
            map_of (typeMap (fold (mapFamily env) ps c)) x = Some v \<longrightarrow>
            (\<exists>f d. (f, d) \<in> set ps \<and>
                   x \<in> schemaIdentifier ` set (FindSchemaInfosInFamily env f) \<and>
                   map_of (typeMap c) f = Some v))"
  using assms
proof (induction ps arbitrary: c)
  case Nil
  show ?case by simp
next
  case (Cons pr ps)
  obtain f d where pr: "pr = (f, d)" by (cases pr)
  obtain a where a: "map_of (typeMap c) f = Some a" using Cons.prems pr by auto
  let ?c' = "mapFamily env (f, d) c"
  note m = mapFamily_map [OF a, of env d]
  have keep: "map_of (typeMap ?c') k = Some v" if "map_of (typeMap c) k = Some v" for k v
    using that by (rule mapFamily_keeps)
  have pre: "\<forall>g \<in> fst ` set ps. map_of (typeMap ?c') g \<noteq> None"
  proof
    fix g assume "g \<in> fst ` set ps"
    then obtain w where "map_of (typeMap c) g = Some w" using Cons.prems by auto
    from keep [OF this] show "map_of (typeMap ?c') g \<noteq> None" by simp
  qed
  note IH = Cons.IH [OF pre]
  have IH1: "map_of (typeMap (fold (mapFamily env) ps ?c')) (schemaIdentifier s) \<noteq> None"
    if "(g, e) \<in> set ps" "s \<in> set (FindSchemaInfosInFamily env g)" for g e s
    using IH that by blast
  have IH2: "\<exists>g e. (g, e) \<in> set ps \<and>
                 x \<in> schemaIdentifier ` set (FindSchemaInfosInFamily env g) \<and>
                 map_of (typeMap ?c') g = Some v"
    if "map_of (typeMap ?c') x = None"
       "map_of (typeMap (fold (mapFamily env) ps ?c')) x = Some v" for x v
    using IH that by blast
  have 1: "map_of (typeMap (fold (mapFamily env) (pr # ps) c)) (schemaIdentifier s) \<noteq> None"
    if "(g, e) \<in> set (pr # ps)" "s \<in> set (FindSchemaInfosInFamily env g)" for g e s
  proof (cases "(g, e) = (f, d)")
    case True
    then have "map_of (typeMap ?c') (schemaIdentifier s) \<noteq> None"
      using that(2) by (simp add: m)
    then show ?thesis using pass2_keeps_keys [of ?c' "schemaIdentifier s" env ps] pr by simp
  next
    case False
    then have "(g, e) \<in> set ps" using that(1) pr by auto
    from IH1 [OF this that(2)] show ?thesis using pr by simp
  qed
  have 2: "\<exists>g e. (g, e) \<in> set (pr # ps) \<and>
                 x \<in> schemaIdentifier ` set (FindSchemaInfosInFamily env g) \<and>
                 map_of (typeMap c) g = Some v"
    if "map_of (typeMap c) x = None"
       "map_of (typeMap (fold (mapFamily env) (pr # ps) c)) x = Some v" for x v
  proof (cases "map_of (typeMap ?c') x")
    case None
    have "map_of (typeMap (fold (mapFamily env) ps ?c')) x = Some v"
      using that(2) pr by simp
    from IH2 [OF None this] obtain g e where g: "(g, e) \<in> set ps"
      "x \<in> schemaIdentifier ` set (FindSchemaInfosInFamily env g)"
      "map_of (typeMap ?c') g = Some v"
      by blast
    obtain w where w: "map_of (typeMap c) g = Some w" using Cons.prems g(1) by force
    from keep [OF w] g(3) have "w = v" by simp
    then show ?thesis using g w by auto
  next
    case (Some w)
    then have "map_of (typeMap (fold (mapFamily env) ps ?c')) x = Some w"
      by (rule pass2_keeps)
    then have "w = v" using that(2) pr by simp
    moreover have "x \<in> schemaIdentifier ` set (FindSchemaInfosInFamily env f) \<and> w = a"
      using Some that(1) by (simp add: m split: if_splits)
    ultimately show ?thesis using a pr by auto
  qed
  show ?case using 1 2 by blast
qed

section \<open>Schema families exist for prim adapters only\<close>

text \<open>After the API schema loop every key of its map is the \<open>apiSchemaName\<close> of the
  discovered adapter it is mapped to.\<close>

lemma api_fold_entries:
  "map_of (apiSchemaTypeMap (fold (discoverAPISchemaAdapter env) ts x)) k = Some v \<Longrightarrow>
   map_of (apiSchemaTypeMap x) k = Some v
   \<or> (v \<in> set ts \<and> acceptedName env ''apiSchemaName'' v = Some k)"
proof (induction ts arbitrary: x)
  case Nil
  then show ?case by simp
next
  case (Cons t ts)
  let ?x' = "discoverAPISchemaAdapter env t x"
  from Cons.IH [of ?x'] Cons.prems
  consider "map_of (apiSchemaTypeMap ?x') k = Some v"
    | "v \<in> set ts \<and> acceptedName env ''apiSchemaName'' v = Some k"
    by auto
  then show ?case
  proof cases
    case 1
    then show ?thesis
      by (auto simp: discoverAPISchemaAdapter_map map_of_tm_assign
               split: option.splits if_splits)
  next
    case 2
    then show ?thesis by simp
  qed
qed

lemma apiPass_entries:
  assumes "apiSchemaTypeMap x = []"
    and "map_of (apiSchemaTypeMap (apiPass env x)) k = Some v"
  shows "v \<in> set (apiSchemaAdapterTypes env) \<and> acceptedName env ''apiSchemaName'' v = Some k"
  using api_fold_entries [of env "apiSchemaAdapterTypes env" "x\<lparr>includeDerivedPrimTypes := []\<rparr>" k v]
    assms
  by (simp add: apiPass_def)

lemma example_pass2:
  "typeMap (primPasses exampleEnv) =
     [(''Cylinder_1'', TfType ''CylinderAdapter''),
      (''Sphere'', TfType ''SphereAdapter2''),
      ([], TfType ''AnyAdapter''),
      (''Cylinder_2'', TfType ''CylinderAdapter'')]"
  "includeSchemaFamilies (primPasses exampleEnv) = [(''Cylinder_1'', True)]"
  by (simp_all add: ctor_defs example_defs)

text \<open>Pass 1 is last-writer-wins: a name is mapped to the last candidate of the loop
  that is written under it.\<close>

lemma pass1_last_writer:
  "map_of (typeMap (fold (discoverPrimAdapter env) ts c)) n =
     (if filter (\<lambda>u. acceptedName env ''primTypeName'' u = Some n) ts = []
      then map_of (typeMap c) n
      else Some (last (filter (\<lambda>u. acceptedName env ''primTypeName'' u = Some n) ts)))"
proof (induction ts rule: rev_induct)
  case Nil
  show ?case by simp
next
  case (snoc x xs)
  show ?case
    by (cases "acceptedName env ''primTypeName'' x")
       (simp_all add: snoc discoverPrimAdapter_typeMap map_of_tm_assign)
qed

text \<open>So a variant that only the family of the candidate's name contains gets the
  candidate's own type, when the candidate is the last one written under its name.\<close>

lemma family_value_is_own:
  assumes "t \<in> set (primAdapterTypes env)"
    and "GetPluginForType env t = Some p"
    and "isEnabled env (GetMetadataForType p t) = Some True"
    and "GetMetadataForType p t ''primTypeName'' = Some (JsString n)"
    and "GetMetadataForType p t ''includeDerivedPrimTypes'' = None \<or>
         (\<exists>b. GetMetadataForType p t ''includeDerivedPrimTypes'' = Some (JsBool b))"
    and "GetMetadataForType p t ''includeSchemaFamily'' = Some (JsBool True)"
    and "s \<in> set (FindSchemaInfosInFamily env n)"
  shows "last (filter (\<lambda>u. acceptedName env ''primTypeName'' u = Some n) (primAdapterTypes env)) = t
          \<longrightarrow>
            map_of (typeMap (fold (discoverPrimAdapter env) (primAdapterTypes env) emptyCtor)) n
              = Some t
          \<and> map_of (typeMap (primPasses env)) n = Some t
          \<and> (map_of (typeMap (fold (discoverPrimAdapter env) (primAdapterTypes env) emptyCtor))
                (schemaIdentifier s) = None
              \<and> (\<forall>f d. (f, d) \<in> set (includeSchemaFamilies
                                   (fold (discoverPrimAdapter env) (primAdapterTypes env) emptyCtor))
                    \<longrightarrow> schemaIdentifier s
                          \<in> schemaIdentifier ` set (FindSchemaInfosInFamily env f)
                    \<longrightarrow> f = n)
              \<longrightarrow> map_of (typeMap (primPasses env)) (schemaIdentifier s) = Some t)"
proof (intro impI conjI)
  let ?c1 = "fold (discoverPrimAdapter env) (primAdapterTypes env) emptyCtor"
  let ?ps = "includeSchemaFamilies ?c1"
  let ?P = "\<lambda>u. acceptedName env ''primTypeName'' u = Some n"
  assume last: "last (filter ?P (primAdapterTypes env)) = t"
  have c2: "primPasses env = fold (mapFamily env) ?ps ?c1"
    by (simp add: primPasses_def Let_def)
  have acc: "?P t" using assms(2-4) by (rule acceptedNameI)
  then have ne: "filter ?P (primAdapterTypes env) \<noteq> []"
    using assms(1) by (auto simp: filter_empty_conv)
  show own: "map_of (typeMap ?c1) n = Some t"
    using ne last by (simp add: pass1_last_writer)
  show "map_of (typeMap (primPasses env)) n = Some t"
    unfolding c2 using own by (rule pass2_keeps)
  assume h: "map_of (typeMap ?c1) (schemaIdentifier s) = None
              \<and> (\<forall>f d. (f, d) \<in> set ?ps
                    \<longrightarrow> schemaIdentifier s
                          \<in> schemaIdentifier ` set (FindSchemaInfosInFamily env f)
                    \<longrightarrow> f = n)"
  have rec1: "(n, GetMetadataForType p t ''includeDerivedPrimTypes'' = Some (JsBool True)) \<in> set ?ps"
    by (rule pass1_records [OF assms(1-6)])
  note p2 = pass2_map [OF pass1_family_names_are_keys [of env "primAdapterTypes env"], of env]
  note p2a = p2 [THEN conjunct1, rule_format]
  note p2b = p2 [THEN conjunct2, rule_format]
  have "map_of (typeMap (fold (mapFamily env) ?ps ?c1)) (schemaIdentifier s) \<noteq> None"
    using rec1 assms(7) by (rule p2a)
  then obtain v where v: "map_of (typeMap (fold (mapFamily env) ?ps ?c1)) (schemaIdentifier s) = Some v"
    by auto
  from p2b [OF conjunct1 [OF h] v] obtain f d where fd: "(f, d) \<in> set ?ps"
    "schemaIdentifier s \<in> schemaIdentifier ` set (FindSchemaInfosInFamily env f)"
    "map_of (typeMap ?c1) f = Some v" by blast
  have "f = n" using conjunct2 [OF h, rule_format, OF fd(1,2)] .
  then have "v = t" using fd(3) own by simp
  then show "map_of (typeMap (primPasses env)) (schemaIdentifier s) = Some t"
    using v by (simp only: c2)
qed

text \<open>Pass 1 in the installation with the two sphere adapters.\<close>

lemma sphere_pass1:
  "typeMap (fold (discoverPrimAdapter sphereEnv) (primAdapterTypes sphereEnv) emptyCtor)
     = [(''Sphere'', TfType ''SphereFamilyAdapter'')]"
  "includeSchemaFamilies (fold (discoverPrimAdapter sphereEnv) (primAdapterTypes sphereEnv) emptyCtor)
     = [(''Sphere'', False)]"
  "diagnostics (fold (discoverPrimAdapter sphereEnv) (primAdapterTypes sphereEnv) emptyCtor)
     = [TF_CODING_ERROR (primAdapterAlreadyExists ''Sphere'' (TfType ''SphereFamilyAdapter'')
          (TfType ''SphereAdapter''))]"
  by (simp_all add: ctor_defs sphereEnv_def exampleEnv_def spherePlugin_def sphereMetadata_def)

lemma sphere_accepted:
  "filter (\<lambda>u. acceptedName sphereEnv ''primTypeName'' u = Some ''Sphere'')
     (primAdapterTypes sphereEnv) = [TfType ''SphereAdapter'', TfType ''SphereFamilyAdapter'']"
  by (simp add: acceptedName_def isEnabled_def sphereEnv_def exampleEnv_def spherePlugin_def
                sphereMetadata_def)

text \<open>
  C2 does not hold for API schema adapters. In the example installation \<open>LightAdapter\<close>
  declares the schema \<open>LightAPI\<close> and \<open>includeSchemaFamily\<close> true, and the family of
  \<open>LightAPI\<close> has the variants \<open>LightAPI\<close> and \<open>LightAPI_1\<close>. The constructor maps
  \<open>LightAPI\<close> and leaves \<open>LightAPI_1\<close> unmapped, and the only pair it records is the one
  of the prim adapter for \<open>Cylinder_1\<close>.
\<close>

theorem api_schema_family_not_propagated:
  "UsdImagingAdapterRegistry exampleEnv = Some exampleRegistry
   \<and> TfType ''LightAdapter'' \<in> set (apiSchemaAdapterTypes exampleEnv)
   \<and> GetPluginForType exampleEnv (TfType ''LightAdapter'') = Some examplePlugin
   \<and> GetMetadataForType examplePlugin (TfType ''LightAdapter'') ''apiSchemaName''
       = Some (JsString ''LightAPI'')
   \<and> GetMetadataForType examplePlugin (TfType ''LightAdapter'') ''includeSchemaFamily''
       = Some (JsBool True)
   \<and> map schemaIdentifier (FindSchemaInfosInFamily exampleEnv ''LightAPI'')
       = [''LightAPI'', ''LightAPI_1'']
   \<and> map_of (apiSchemaTypeMap exampleRegistry) ''LightAPI'' = Some (TfType ''LightAdapter'')
   \<and> map_of (apiSchemaTypeMap exampleRegistry) ''LightAPI_1'' = None
   \<and> \<not> HasAPISchemaAdapter exampleRegistry ''LightAPI_1''
   \<and> includeSchemaFamilies exampleRegistry = [(''Cylinder_1'', True)]"
  by (simp add: example_registry)
     (simp add: example_defs exampleRegistry_def HasAPISchemaAdapter_def)

text \<open>
  C2, amended. A prim adapter candidate has a plugin, is enabled, has a string
  \<open>primTypeName\<close>, an \<open>includeDerivedPrimTypes\<close> that is absent or a boolean, and
  \<open>includeSchemaFamily\<close> true. Then the pair of its name and its derived flag is
  recorded, and after Pass 2 every variant of the family of that name is a key of the
  prim type map: a variant that was a key after Pass 1 keeps its adapter type, and a
  variant that was not is mapped to the adapter type that Pass 1 left under the name of
  a recorded family containing it. When the candidate is the last one of the loop
  written under its name, that name is mapped to the candidate's own type after Pass 1
  and after Pass 2, and so is every variant of its family that was not a key after
  Pass 1 and that no recorded family of another name contains. The API schema loop
  records no pair, and when it starts from an empty map every key it leaves is the
  \<open>apiSchemaName\<close> of the discovered adapter it is mapped to; Pass 3 follows it
  directly.
\<close>

theorem family_propagation_prim_only:
  assumes "t \<in> set (primAdapterTypes env)"
    and "GetPluginForType env t = Some p"
    and "isEnabled env (GetMetadataForType p t) = Some True"
    and "GetMetadataForType p t ''primTypeName'' = Some (JsString n)"
    and "GetMetadataForType p t ''includeDerivedPrimTypes'' = None \<or>
         (\<exists>b. GetMetadataForType p t ''includeDerivedPrimTypes'' = Some (JsBool b))"
    and "GetMetadataForType p t ''includeSchemaFamily'' = Some (JsBool True)"
    and "s \<in> set (FindSchemaInfosInFamily env n)"
  shows "(n, GetMetadataForType p t ''includeDerivedPrimTypes'' = Some (JsBool True))
           \<in> set (includeSchemaFamilies (primPasses env))
       \<and> (\<exists>v. map_of (typeMap (primPasses env)) (schemaIdentifier s) = Some v
            \<and> (\<forall>w. map_of (typeMap (fold (discoverPrimAdapter env) (primAdapterTypes env) emptyCtor))
                       (schemaIdentifier s) = Some w \<longrightarrow> v = w)
            \<and> (map_of (typeMap (fold (discoverPrimAdapter env) (primAdapterTypes env) emptyCtor))
                  (schemaIdentifier s) = None \<longrightarrow>
                (\<exists>f d. (f, d) \<in> set (includeSchemaFamilies
                                      (fold (discoverPrimAdapter env) (primAdapterTypes env) emptyCtor))
                   \<and> schemaIdentifier s \<in> schemaIdentifier ` set (FindSchemaInfosInFamily env f)
                   \<and> map_of (typeMap (fold (discoverPrimAdapter env) (primAdapterTypes env) emptyCtor)) f
                       = Some v)))
       \<and> includeSchemaFamilies (apiPass env x) = includeSchemaFamilies x
       \<and> (apiSchemaTypeMap x = [] \<longrightarrow>
            (\<forall>k v. map_of (apiSchemaTypeMap (apiPass env x)) k = Some v \<longrightarrow>
               v \<in> set (apiSchemaAdapterTypes env) \<and> acceptedName env ''apiSchemaName'' v = Some k))
       \<and> (last (filter (\<lambda>u. acceptedName env ''primTypeName'' u = Some n) (primAdapterTypes env)) = t
          \<longrightarrow>
            map_of (typeMap (fold (discoverPrimAdapter env) (primAdapterTypes env) emptyCtor)) n
              = Some t
          \<and> map_of (typeMap (primPasses env)) n = Some t
          \<and> (map_of (typeMap (fold (discoverPrimAdapter env) (primAdapterTypes env) emptyCtor))
                (schemaIdentifier s) = None
              \<and> (\<forall>f d. (f, d) \<in> set (includeSchemaFamilies
                                   (fold (discoverPrimAdapter env) (primAdapterTypes env) emptyCtor))
                    \<longrightarrow> schemaIdentifier s
                          \<in> schemaIdentifier ` set (FindSchemaInfosInFamily env f)
                    \<longrightarrow> f = n)
              \<longrightarrow> map_of (typeMap (primPasses env)) (schemaIdentifier s) = Some t))"
proof -
  let ?c1 = "fold (discoverPrimAdapter env) (primAdapterTypes env) emptyCtor"
  let ?ps = "includeSchemaFamilies ?c1"
  let ?pr = "(n, GetMetadataForType p t ''includeDerivedPrimTypes'' = Some (JsBool True))"
  have c2: "primPasses env = fold (mapFamily env) ?ps ?c1"
    by (simp add: primPasses_def Let_def)
  have rec1: "?pr \<in> set ?ps"
    by (rule pass1_records [OF assms(1-6)])
  have fams2: "includeSchemaFamilies (primPasses env) = ?ps"
    unfolding c2
    by (rule fold_invariant [where P = "\<lambda>y. includeSchemaFamilies y = ?ps"]) simp_all
  have A: "?pr \<in> set (includeSchemaFamilies (primPasses env))"
    using rec1 fams2 by simp
  note p2 = pass2_map [OF pass1_family_names_are_keys [of env "primAdapterTypes env"], of env]
  note p2a = p2 [THEN conjunct1, rule_format]
  note p2b = p2 [THEN conjunct2, rule_format]
  have "map_of (typeMap (fold (mapFamily env) ?ps ?c1)) (schemaIdentifier s) \<noteq> None"
    using rec1 assms(7) by (rule p2a)
  then obtain v where v': "map_of (typeMap (fold (mapFamily env) ?ps ?c1)) (schemaIdentifier s) = Some v"
    by auto
  then have v: "map_of (typeMap (primPasses env)) (schemaIdentifier s) = Some v"
    by (simp only: c2)
  have B1: "v = w" if "map_of (typeMap ?c1) (schemaIdentifier s) = Some w" for w
    using pass2_keeps [OF that, of env ?ps] v' by simp
  have B2: "\<exists>f d. (f, d) \<in> set ?ps
              \<and> schemaIdentifier s \<in> schemaIdentifier ` set (FindSchemaInfosInFamily env f)
              \<and> map_of (typeMap ?c1) f = Some v"
    if "map_of (typeMap ?c1) (schemaIdentifier s) = None"
    using that v' by (rule p2b)
  have B: "\<exists>v. map_of (typeMap (primPasses env)) (schemaIdentifier s) = Some v
            \<and> (\<forall>w. map_of (typeMap ?c1) (schemaIdentifier s) = Some w \<longrightarrow> v = w)
            \<and> (map_of (typeMap ?c1) (schemaIdentifier s) = None \<longrightarrow>
                (\<exists>f d. (f, d) \<in> set ?ps
                   \<and> schemaIdentifier s \<in> schemaIdentifier ` set (FindSchemaInfosInFamily env f)
                   \<and> map_of (typeMap ?c1) f = Some v))"
  proof (intro exI [of _ v] conjI allI impI)
    show "map_of (typeMap (primPasses env)) (schemaIdentifier s) = Some v" by (rule v)
    show "v = w" if "map_of (typeMap ?c1) (schemaIdentifier s) = Some w" for w
      using that by (rule B1)
    show "\<exists>f d. (f, d) \<in> set ?ps
              \<and> schemaIdentifier s \<in> schemaIdentifier ` set (FindSchemaInfosInFamily env f)
              \<and> map_of (typeMap ?c1) f = Some v"
      if "map_of (typeMap ?c1) (schemaIdentifier s) = None"
      using that by (rule B2)
  qed
  have C: "includeSchemaFamilies (apiPass env x) = includeSchemaFamilies x"
    by (rule apiPass_frame)
  have D: "apiSchemaTypeMap x = [] \<longrightarrow>
            (\<forall>k v. map_of (apiSchemaTypeMap (apiPass env x)) k = Some v \<longrightarrow>
               v \<in> set (apiSchemaAdapterTypes env) \<and> acceptedName env ''apiSchemaName'' v = Some k)"
  proof (intro impI allI)
    fix k v
    assume "apiSchemaTypeMap x = []" "map_of (apiSchemaTypeMap (apiPass env x)) k = Some v"
    then show "v \<in> set (apiSchemaAdapterTypes env) \<and> acceptedName env ''apiSchemaName'' v = Some k"
      by (rule apiPass_entries)
  qed
  note E = family_value_is_own [OF assms]
  show ?thesis by (intro conjI A B C D E)
qed

text \<open>
  The cylinder adapter of the example installation: its pair is recorded and the
  second cylinder schema gets its adapter type. In the installation with the two
  sphere adapters the second one overwrote the first in Pass 1, and both \<open>Sphere\<close> and
  the variant \<open>Sphere_1\<close> end on the second.
\<close>

theorem family_propagation_prim_only_witness:
  "TfType ''CylinderAdapter'' \<in> set (primAdapterTypes exampleEnv)
   \<and> GetMetadataForType examplePlugin (TfType ''CylinderAdapter'') ''includeSchemaFamily''
       = Some (JsBool True)
   \<and> \<lparr>schemaIdentifier = ''Cylinder_2'', schemaType = TfType ''UsdGeomCylinder_2''\<rparr>
       \<in> set (FindSchemaInfosInFamily exampleEnv ''Cylinder_1'')
   \<and> (''Cylinder_1'', True) \<in> set (includeSchemaFamilies (primPasses exampleEnv))
   \<and> map_of (typeMap (primPasses exampleEnv)) ''Cylinder_2'' = Some (TfType ''CylinderAdapter'')
   \<and> includeSchemaFamilies (apiPass exampleEnv emptyCtor) = []
   \<and> primAdapterTypes sphereEnv = [TfType ''SphereAdapter'', TfType ''SphereFamilyAdapter'']
   \<and> GetMetadataForType spherePlugin (TfType ''SphereAdapter'') ''primTypeName''
       = Some (JsString ''Sphere'')
   \<and> GetMetadataForType spherePlugin (TfType ''SphereFamilyAdapter'') ''primTypeName''
       = Some (JsString ''Sphere'')
   \<and> GetMetadataForType spherePlugin (TfType ''SphereFamilyAdapter'') ''includeSchemaFamily''
       = Some (JsBool True)
   \<and> \<lparr>schemaIdentifier = ''Sphere_1'', schemaType = TfType ''UsdGeomSphere_1''\<rparr>
       \<in> set (FindSchemaInfosInFamily sphereEnv ''Sphere'')
   \<and> (''Sphere'', False) \<in> set (includeSchemaFamilies (primPasses sphereEnv))
   \<and> map_of (typeMap (primPasses sphereEnv)) ''Sphere'' = Some (TfType ''SphereFamilyAdapter'')
   \<and> map_of (typeMap (primPasses sphereEnv)) ''Sphere_1'' = Some (TfType ''SphereFamilyAdapter'')"
proof -
  let ?t = "TfType ''CylinderAdapter''"
  have 1: "?t \<in> set (primAdapterTypes exampleEnv)"
    by (simp add: exampleEnv_def)
  have 2: "GetPluginForType exampleEnv ?t = Some examplePlugin"
    by (simp add: exampleEnv_def)
  have 3: "isEnabled exampleEnv (GetMetadataForType examplePlugin ?t) = Some True"
    by (simp add: isEnabled_def exampleEnv_def)
  have 4: "GetMetadataForType examplePlugin ?t ''primTypeName'' = Some (JsString ''Cylinder_1'')"
    by (simp add: examplePlugin_def exampleMetadata_def)
  have 5: "GetMetadataForType examplePlugin ?t ''includeDerivedPrimTypes'' = Some (JsBool True)"
    by (simp add: examplePlugin_def exampleMetadata_def)
  then have wf: "GetMetadataForType examplePlugin ?t ''includeDerivedPrimTypes'' = None \<or>
         (\<exists>b. GetMetadataForType examplePlugin ?t ''includeDerivedPrimTypes'' = Some (JsBool b))"
    by blast
  have 6: "GetMetadataForType examplePlugin ?t ''includeSchemaFamily'' = Some (JsBool True)"
    by (simp add: examplePlugin_def exampleMetadata_def)
  have 7: "\<lparr>schemaIdentifier = ''Cylinder_2'', schemaType = TfType ''UsdGeomCylinder_2''\<rparr>
             \<in> set (FindSchemaInfosInFamily exampleEnv ''Cylinder_1'')"
    by (simp add: exampleEnv_def exampleFamily_def)
  have 8: "map_of (typeMap (primPasses exampleEnv)) ''Cylinder_2'' = Some (TfType ''CylinderAdapter'')"
    by (simp add: example_pass2)
  note th = family_propagation_prim_only [OF 1 2 3 4 wf 6 7, of emptyCtor]
  have 9: "(''Cylinder_1'', True) \<in> set (includeSchemaFamilies (primPasses exampleEnv))"
    using th [THEN conjunct1] unfolding 5 by simp
  have "includeSchemaFamilies (apiPass exampleEnv emptyCtor) = includeSchemaFamilies emptyCtor"
    using th [THEN conjunct2, THEN conjunct2, THEN conjunct1] .
  then have 10: "includeSchemaFamilies (apiPass exampleEnv emptyCtor) = []"
    by (simp add: emptyCtor_def)
  let ?u = "TfType ''SphereFamilyAdapter''"
  let ?s = "\<lparr>schemaIdentifier = ''Sphere_1'', schemaType = TfType ''UsdGeomSphere_1''\<rparr>"
  let ?c1 = "fold (discoverPrimAdapter sphereEnv) (primAdapterTypes sphereEnv) emptyCtor"
  have s0: "primAdapterTypes sphereEnv = [TfType ''SphereAdapter'', ?u]"
    by (simp add: sphereEnv_def)
  have s1: "?u \<in> set (primAdapterTypes sphereEnv)"
    by (simp add: s0)
  have s2: "GetPluginForType sphereEnv ?u = Some spherePlugin"
    by (simp add: sphereEnv_def)
  have s3: "isEnabled sphereEnv (GetMetadataForType spherePlugin ?u) = Some True"
    by (simp add: isEnabled_def sphereEnv_def exampleEnv_def)
  have s4: "GetMetadataForType spherePlugin ?u ''primTypeName'' = Some (JsString ''Sphere'')"
           "GetMetadataForType spherePlugin (TfType ''SphereAdapter'') ''primTypeName''
              = Some (JsString ''Sphere'')"
    by (simp_all add: spherePlugin_def sphereMetadata_def)
  have s5: "GetMetadataForType spherePlugin ?u ''includeDerivedPrimTypes'' = None"
    by (simp add: spherePlugin_def sphereMetadata_def)
  then have swf: "GetMetadataForType spherePlugin ?u ''includeDerivedPrimTypes'' = None \<or>
         (\<exists>b. GetMetadataForType spherePlugin ?u ''includeDerivedPrimTypes'' = Some (JsBool b))"
    by blast
  have s6: "GetMetadataForType spherePlugin ?u ''includeSchemaFamily'' = Some (JsBool True)"
    by (simp add: spherePlugin_def sphereMetadata_def)
  have s7: "?s \<in> set (FindSchemaInfosInFamily sphereEnv ''Sphere'')"
    by (simp add: sphereEnv_def sphereFamily_def)
  note sth = family_propagation_prim_only [OF s1 s2 s3 s4(1) swf s6 s7, of emptyCtor]
  have s8: "(''Sphere'', False) \<in> set (includeSchemaFamilies (primPasses sphereEnv))"
    using sth [THEN conjunct1] unfolding s5 by simp
  have last: "last (filter (\<lambda>u. acceptedName sphereEnv ''primTypeName'' u = Some ''Sphere'')
                      (primAdapterTypes sphereEnv)) = ?u"
    by (simp add: sphere_accepted)
  note own = sth [THEN conjunct2, THEN conjunct2, THEN conjunct2, THEN conjunct2, THEN mp, OF last]
  have s9: "map_of (typeMap (primPasses sphereEnv)) ''Sphere'' = Some ?u"
    using own [THEN conjunct2, THEN conjunct1] .
  have fresh: "map_of (typeMap ?c1) (schemaIdentifier ?s) = None
           \<and> (\<forall>f d. (f, d) \<in> set (includeSchemaFamilies ?c1)
                 \<longrightarrow> schemaIdentifier ?s
                       \<in> schemaIdentifier ` set (FindSchemaInfosInFamily sphereEnv f)
                 \<longrightarrow> f = ''Sphere'')"
    by (simp add: sphere_pass1)
  have "map_of (typeMap (primPasses sphereEnv)) (schemaIdentifier ?s) = Some ?u"
    using own [THEN conjunct2, THEN conjunct2, THEN mp, OF fresh] .
  then have s10: "map_of (typeMap (primPasses sphereEnv)) ''Sphere_1'' = Some ?u"
    by simp
  show ?thesis
    using 1 6 7 8 9 10 s0 s4 s6 s7 s8 s9 s10 by blast
qed

end
